theory Spec2Isabelle
  imports Main "HOL-Library.Char_ord" "HOL-Library.List_Lexorder"
begin

section \<open>JavaScript Dates\<close>

text \<open>
  A Date holds a time value, a number of milliseconds since the epoch in UTC, of
  magnitude at most 8.64e15, or NaN (Invalid Date), here \<open>None\<close>. Every operation that
  builds or changes a Date clips its result to that range (\<open>TimeClip\<close>), an Invalid Date
  stays invalid, and a comparison with an Invalid Date is false.

  Local time is UTC shifted by the fixed offset \<open>tza\<close> of the environment (the clinic's
  zone, UTC+9, has no daylight saving time). Numbers are integers: the settings and
  durations are results of \<open>parseInt\<close> or integer columns, the Date methods convert
  their arguments to integers, and integers below 2^53 in magnitude are exact in
  JavaScript.
\<close>

type_synonym jsdate = "int option"
type_synonym daynum = int
type_synonym timeofday = int

definition msPerMinute :: int where "msPerMinute = 60000"
definition msPerHour :: int where "msPerHour = 3600000"
definition msPerDay :: int where "msPerDay = 86400000"
definition maxTime :: int where "maxTime = 8640000000000000"

definition timeClip :: "int \<Rightarrow> jsdate" where
  "timeClip t = (if - maxTime \<le> t \<and> t \<le> maxTime then Some t else None)"

definition lessDate :: "jsdate \<Rightarrow> jsdate \<Rightarrow> bool" where
  \<comment> \<open>\<open>a < b\<close> (and \<open>b > a\<close>) on Dates\<close>
  "lessDate a b = (case a of None \<Rightarrow> False | Some x \<Rightarrow> (case b of None \<Rightarrow> False | Some y \<Rightarrow> x < y))"

definition lessEqDate :: "jsdate \<Rightarrow> jsdate \<Rightarrow> bool" where
  \<comment> \<open>\<open>a <= b\<close> (and \<open>b >= a\<close>) on Dates\<close>
  "lessEqDate a b = (case a of None \<Rightarrow> False | Some x \<Rightarrow> (case b of None \<Rightarrow> False | Some y \<Rightarrow> x \<le> y))"

definition plusMs :: "jsdate \<Rightarrow> int \<Rightarrow> jsdate" where
  \<comment> \<open>\<open>new Date(d.getTime() + n)\<close>\<close>
  "plusMs d n = (case d of None \<Rightarrow> None | Some t \<Rightarrow> timeClip (t + n))"

definition setDateBy :: "jsdate \<Rightarrow> int \<Rightarrow> jsdate" where
  \<comment> \<open>\<open>d.setDate(d.getDate() + n)\<close>\<close>
  "setDateBy d n = plusMs d (n * msPerDay)"

definition setMinutesBy :: "jsdate \<Rightarrow> int \<Rightarrow> jsdate" where
  \<comment> \<open>\<open>d.setMinutes(d.getMinutes() + n)\<close>\<close>
  "setMinutesBy d n = plusMs d (n * msPerMinute)"

definition localDay :: "int \<Rightarrow> int \<Rightarrow> daynum" where
  \<comment> \<open>the local calendar day of a time value, in days since 1970-01-01\<close>
  "localDay tz t = (t + tz) div msPerDay"

definition setHoursAt :: "int \<Rightarrow> jsdate \<Rightarrow> int \<Rightarrow> int \<Rightarrow> int \<Rightarrow> int \<Rightarrow> jsdate" where
  \<comment> \<open>\<open>d.setHours(h, m, s, ms)\<close>: the local day is kept, the time of day replaced\<close>
  "setHoursAt tz d h m s ms =
     (case d of
        None \<Rightarrow> None
      | Some t \<Rightarrow> timeClip (localDay tz t * msPerDay + h * msPerHour + m * msPerMinute
                            + s * 1000 + ms - tz))"

definition weekdayOf :: "int \<Rightarrow> int \<Rightarrow> int" where
  \<comment> \<open>the local day of the week of a time value, 0 = Sunday; 1970-01-01 was a Thursday\<close>
  "weekdayOf tz t = (localDay tz t + 4) mod 7"

definition minuteOfDay :: "int \<Rightarrow> int \<Rightarrow> timeofday" where
  \<comment> \<open>the local minute of the day of a time value\<close>
  "minuteOfDay tz t = ((t + tz) mod msPerDay) div msPerMinute"

subsection \<open>Calendar fields and rendering\<close>

definition civil :: "daynum \<Rightarrow> int \<times> int \<times> int" where
  \<comment> \<open>year, month (1 to 12) and day of the month of a day number, proleptic Gregorian\<close>
  "civil z0 =
     (let z = z0 + 719468;
          era = z div 146097;
          doe = z - era * 146097;
          yoe = (doe - doe div 1460 + doe div 36524 - doe div 146096) div 365;
          doy = doe - (365 * yoe + yoe div 4 - yoe div 100);
          mp = (5 * doy + 2) div 153;
          dd = doy - (153 * mp + 2) div 5 + 1;
          mm = (if mp < 10 then mp + 3 else mp - 9);
          yy = yoe + era * 400 + (if mm \<le> 2 then 1 else 0)
      in (yy, mm, dd))"

definition daysFromCivil :: "int \<Rightarrow> int \<Rightarrow> int \<Rightarrow> daynum" where
  "daysFromCivil y0 m dd =
     (let y = (if m \<le> 2 then y0 - 1 else y0);
          era = y div 400;
          yoe = y - era * 400;
          doy = (153 * (if m > 2 then m - 3 else m + 9) + 2) div 5 + dd - 1;
          doe = yoe * 365 + yoe div 4 - yoe div 100 + doy
      in era * 146097 + doe - 719468)"

function showDigits :: "int \<Rightarrow> string" where
  "showDigits n = (if n < 10 then [''0123456789'' ! nat n]
                   else showDigits (n div 10) @ [''0123456789'' ! nat (n mod 10)])"
  by pat_completeness auto

termination
  by (relation "measure nat") auto

declare showDigits.simps [simp del]

definition showInt :: "int \<Rightarrow> string" where
  \<comment> \<open>\<open>String(n)\<close> for an integer\<close>
  "showInt i = (if i < 0 then CHR ''-'' # showDigits (- i) else showDigits i)"

definition padStart :: "nat \<Rightarrow> string \<Rightarrow> string" where
  \<comment> \<open>\<open>s.padStart(n, '0')\<close>\<close>
  "padStart n s = replicate (n - length s) CHR ''0'' @ s"

definition showField :: "int option \<Rightarrow> string" where
  \<comment> \<open>\<open>String(x)\<close> for a Date field, NaN on an Invalid Date\<close>
  "showField x = (case x of None \<Rightarrow> ''NaN'' | Some i \<Rightarrow> showInt i)"

definition getFullYear :: "int \<Rightarrow> jsdate \<Rightarrow> int option" where
  "getFullYear tz d = (case d of None \<Rightarrow> None | Some t \<Rightarrow> Some (fst (civil (localDay tz t))))"

definition getMonth1 :: "int \<Rightarrow> jsdate \<Rightarrow> int option" where
  \<comment> \<open>\<open>d.getMonth() + 1\<close>\<close>
  "getMonth1 tz d = (case d of None \<Rightarrow> None | Some t \<Rightarrow> Some (fst (snd (civil (localDay tz t)))))"

definition getDate :: "int \<Rightarrow> jsdate \<Rightarrow> int option" where
  "getDate tz d = (case d of None \<Rightarrow> None | Some t \<Rightarrow> Some (snd (snd (civil (localDay tz t)))))"

definition getHours :: "int \<Rightarrow> jsdate \<Rightarrow> int option" where
  "getHours tz d = (case d of None \<Rightarrow> None | Some t \<Rightarrow> Some (((t + tz) mod msPerDay) div msPerHour))"

definition getMinutes :: "int \<Rightarrow> jsdate \<Rightarrow> int option" where
  "getMinutes tz d = (case d of None \<Rightarrow> None | Some t \<Rightarrow> Some (((t + tz) mod msPerHour) div msPerMinute))"

definition getSeconds :: "int \<Rightarrow> jsdate \<Rightarrow> int option" where
  "getSeconds tz d = (case d of None \<Rightarrow> None | Some t \<Rightarrow> Some (((t + tz) mod msPerMinute) div 1000))"

definition formatDate :: "int \<Rightarrow> jsdate \<Rightarrow> string" where
  "formatDate tz d =
     showField (getFullYear tz d) @ ''-'' @ padStart 2 (showField (getMonth1 tz d))
       @ ''-'' @ padStart 2 (showField (getDate tz d))"

definition formatTime :: "int \<Rightarrow> jsdate \<Rightarrow> string" where
  "formatTime tz d =
     padStart 2 (showField (getHours tz d)) @ '':'' @ padStart 2 (showField (getMinutes tz d))"

definition formatDateTime :: "int \<Rightarrow> jsdate \<Rightarrow> string" where
  \<comment> \<open>\<open>formatDateTime\<close> of \<open>lib/slots.js\<close>\<close>
  "formatDateTime tz d =
     formatDate tz d @ '' '' @ formatTime tz d @ '':'' @ padStart 2 (showField (getSeconds tz d))"

definition showYearISO :: "int \<Rightarrow> string" where
  "showYearISO y = (if 0 \<le> y \<and> y \<le> 9999 then padStart 4 (showInt y)
                    else (if y < 0 then ''-'' else ''+'') @ padStart 6 (showInt \<bar>y\<bar>))"

definition toISOString :: "jsdate \<Rightarrow> string option" where
  \<comment> \<open>\<open>formatDateTime\<close> of \<open>lib/slots.postgres.js\<close>; \<open>None\<close>: a RangeError is thrown\<close>
  "toISOString d =
     (case d of
        None \<Rightarrow> None
      | Some t \<Rightarrow>
          (case civil (t div msPerDay) of (y, m, dd) \<Rightarrow>
             Some (showYearISO y @ ''-'' @ padStart 2 (showInt m) @ ''-'' @ padStart 2 (showInt dd)
                   @ ''T'' @ padStart 2 (showInt ((t mod msPerDay) div msPerHour))
                   @ '':'' @ padStart 2 (showInt ((t mod msPerHour) div msPerMinute))
                   @ '':'' @ padStart 2 (showInt ((t mod msPerMinute) div 1000))
                   @ ''.'' @ padStart 3 (showInt (t mod 1000)) @ ''Z'')))"

section \<open>Settings\<close>

text \<open>
  The settings object maps keys to strings. Each numeric setting is represented by what
  \<open>parseInt\<close> makes of it (\<open>None\<close> for NaN: the key is absent or its value is not
  numeric). A time text \<open>'HH:MM'\<close> is represented by the two numbers that
  \<open>split(':').map(Number)\<close>, and the integer conversion of \<open>setHours\<close> after it, make of
  its first two pieces (\<open>None\<close> where that is not a finite number or the piece is
  missing); an absent or empty text is \<open>None\<close>.
\<close>

type_synonym timetext = "int option \<times> int option"

record settings =
  booking_cutoff_days :: "int option"
  booking_cutoff_hours :: "int option"
  booking_max_days_ahead :: "int option"
  slot_duration_minutes :: "int option"
  default_slot_capacity :: "int option"
  lunch_start :: "timetext option"
  lunch_end :: "timetext option"

definition parseIntOr :: "int option \<Rightarrow> int \<Rightarrow> int" where
  \<comment> \<open>\<open>parseInt(x) || d\<close>: NaN and 0 are falsy\<close>
  "parseIntOr x d = (case x of None \<Rightarrow> d | Some v \<Rightarrow> if v = 0 then d else v)"

definition orElse :: "'a option \<Rightarrow> 'a option \<Rightarrow> 'a option" where
  \<comment> \<open>\<open>a || b\<close> on nullable strings\<close>
  "orElse a b = (case a of None \<Rightarrow> b | Some v \<Rightarrow> Some v)"

definition atTimeOfDay :: "int \<Rightarrow> jsdate \<Rightarrow> timetext \<Rightarrow> jsdate" where
  \<comment> \<open>\<open>[h, m] = text.split(':').map(Number); d = new Date(target); d.setHours(h, m, 0, 0)\<close>\<close>
  "atTimeOfDay tz d hm =
     (case hm of
        (Some h, Some m) \<Rightarrow> setHoursAt tz d h m 0 0
      | _ \<Rightarrow> None)"

section \<open>Tables\<close>

text \<open>
  The type parameters are those of the timestamp and the date columns. In SQLite both
  are TEXT and hold the strings that were written; in PostgreSQL a TIMESTAMP holds a
  wall-clock reading without zone (here in milliseconds since 1970-01-01 00:00 on that
  clock) and a DATE a day number. The exception type is unchecked text, and so are the
  dates and times of an exception.
\<close>

datatype status = Confirmed | Cancelled | Completed

record service =
  svc_id :: int
  svc_duration_minutes :: int
  svc_is_active :: bool

record staff =
  stf_id :: int
  stf_is_active :: bool

record 'd holiday =
  hol_date :: 'd
  hol_name :: "string option"

record business_hours =
  bh_day_of_week :: int
  bh_open_time :: "timetext option"
  bh_close_time :: "timetext option"
  bh_morning_open :: "timetext option"
  bh_morning_close :: "timetext option"
  bh_afternoon_open :: "timetext option"
  bh_afternoon_close :: "timetext option"
  bh_is_closed :: bool

record schedule_exception =
  ex_exception_type :: string
  ex_start_date :: string
  ex_end_date :: string
  ex_start_time :: "string option"
  ex_end_time :: "string option"
  ex_morning_open :: "timetext option"
  ex_morning_close :: "timetext option"
  ex_afternoon_open :: "timetext option"
  ex_afternoon_close :: "timetext option"
  ex_reason :: "string option"

record slot_capacity =
  cap_day_of_week :: "int option"
  cap_specific_date :: "daynum option"
  cap_time_slot :: timeofday
  cap_capacity :: int

record 't appointment =
  apt_service_id :: int
  apt_staff_id :: "int option"
  apt_start_at :: 't
  apt_end_at :: 't
  apt_status :: status

record ('t, 'd) db =
  services :: "service list"
  staff_members :: "staff list"
  holidays :: "'d holiday list"
  business_hours_rows :: "business_hours list"
  schedule_exceptions :: "schedule_exception list"
  slot_capacities :: "slot_capacity list"
  appointments :: "'t appointment list"

section \<open>The environment\<close>

text \<open>
  What the engine takes from outside its own code: the clock (the calls of \<open>new Date()\<close>
  within one request are taken to return the same instant), the zone, the Date parser
  of JavaScript (\<open>None\<close> for NaN), SQLite's \<open>DATE()\<close> on a text (\<open>None\<close> for NULL), the
  order in which SQLite yields rows that \<open>ORDER BY\<close> leaves tied, and PostgreSQL's
  reading of a bound text as a DATE or a TIMESTAMP (\<open>None\<close>: the query raises an error).
\<close>

record env =
  clock :: int
  tza :: int
  dateParse :: "string \<Rightarrow> int option"
  sqliteDate :: "string \<Rightarrow> string option"
  rowOrder :: "schedule_exception list \<Rightarrow> schedule_exception list"
  pgDate :: "string \<Rightarrow> daynum option"
  pgTimestamp :: "string \<Rightarrow> int option"

definition newDate :: "env \<Rightarrow> string \<Rightarrow> jsdate" where
  \<comment> \<open>\<open>new Date(text)\<close>\<close>
  "newDate e s = (case dateParse e s of None \<Rightarrow> None | Some t \<Rightarrow> timeClip t)"

definition setHours :: "env \<Rightarrow> jsdate \<Rightarrow> int \<Rightarrow> int \<Rightarrow> int \<Rightarrow> int \<Rightarrow> jsdate" where
  "setHours e = setHoursAt (tza e)"

definition getDay :: "env \<Rightarrow> jsdate \<Rightarrow> int option" where
  \<comment> \<open>\<open>d.getDay()\<close>, NaN on an Invalid Date\<close>
  "getDay e d = map_option (weekdayOf (tza e)) d"

section \<open>Queries that read one row\<close>

text \<open>
  A query that reads one row (\<open>.get\<close>, \<open>queryOne\<close>) is \<open>find\<close> on the table. \<open><\<close> on
  strings is the order of SQLite's text comparison, byte by byte.
\<close>

definition truthy :: "int option \<Rightarrow> bool" where
  \<comment> \<open>\<open>staffId ? ... : ...\<close>: null, NaN and 0 are falsy\<close>
  "truthy x = (case x of None \<Rightarrow> False | Some v \<Rightarrow> v \<noteq> 0)"

definition selectHoliday :: "('t, 'd) db \<Rightarrow> 'd \<Rightarrow> 'd holiday option" where
  "selectHoliday d dateStr = find (\<lambda>h. hol_date h = dateStr) (holidays d)"

definition selectBusinessHours :: "('t, 'd) db \<Rightarrow> int option \<Rightarrow> business_hours option" where
  "selectBusinessHours d dayOfWeek =
     (case dayOfWeek of
        None \<Rightarrow> None
      | Some w \<Rightarrow> find (\<lambda>b. bh_day_of_week b = w) (business_hours_rows d))"

definition selectActiveService :: "('t, 'd) db \<Rightarrow> int \<Rightarrow> service option" where
  "selectActiveService d serviceId = find (\<lambda>s. svc_id s = serviceId \<and> svc_is_active s) (services d)"

definition selectActiveStaff :: "('t, 'd) db \<Rightarrow> int \<Rightarrow> staff option" where
  "selectActiveStaff d staffId = find (\<lambda>s. stf_id s = staffId \<and> stf_is_active s) (staff_members d)"

definition staffClause :: "int option \<Rightarrow> 't appointment \<Rightarrow> bool" where
  \<comment> \<open>\<open>staffId ? 'AND (staff_id = ? OR staff_id IS NULL)' : ''\<close>\<close>
  "staffClause staffId a = (truthy staffId \<longrightarrow> apt_staff_id a = staffId \<or> apt_staff_id a = None)"

definition selectConflict ::
  "('t::ord, 'd) db \<Rightarrow> 't \<Rightarrow> 't \<Rightarrow> int option \<Rightarrow> 't appointment option" where
  \<comment> \<open>\<open>WHERE status = 'confirmed' AND start_at < ? AND end_at > ?\<close> with the parameters
      \<open>endAt\<close>, \<open>startAt\<close>, and the staff clause\<close>
  "selectConflict d startAt endAt staffId =
     find (\<lambda>a. apt_status a = Confirmed \<and> apt_start_at a < endAt \<and> apt_end_at a > startAt
               \<and> staffClause staffId a) (appointments d)"

section \<open>Errors and results\<close>

datatype label =
    Named string
  | Kyushinbi       \<comment> \<open>the fixed word for "closed day" used when a holiday has no name\<close>
  | RinjiKyugyo     \<comment> \<open>the fixed word for "temporary closure" used when an exception has no reason\<close>

datatype error =
    InvalidDate                \<comment> \<open>the date does not parse\<close>
  | InvalidDateTime            \<comment> \<open>a timestamp does not parse\<close>
  | EndNotAfterStart           \<comment> \<open>the end must be after the start\<close>
  | BeyondHorizon int          \<comment> \<open>bookings are taken up to n days ahead\<close>
  | BookingClosedUntil int int \<comment> \<open>booking for this date has closed (n days before, until h:00)\<close>
  | BookingClosed              \<comment> \<open>booking for this date has closed\<close>
  | PastDateTime               \<comment> \<open>a past date and time cannot be booked\<close>
  | ClosedBecause label        \<comment> \<open>cannot book because of (label)\<close>
  | ClosedDay                  \<comment> \<open>it is a closed day\<close>
  | InvalidService
  | InvalidStaff
  | AlreadyBooked              \<comment> \<open>this time is already booked\<close>

datatype thrown = TypeError | RangeError | DatabaseError

record validation =
  valid :: bool
  error :: "error option"

definition invalid :: "error \<Rightarrow> validation" where
  "invalid e = \<lparr> valid = False, error = Some e \<rparr>"

definition allValid :: validation where
  "allValid = \<lparr> valid = True, error = None \<rparr>"

section \<open>The booking validator\<close>

text \<open>
  \<open>validateBooking\<close> of \<open>lib/slots.js\<close> and of \<open>lib/slots.postgres.js\<close> begin with the
  same checks on the parsed timestamps; \<open>bookingWindowError\<close> is that common part, up to
  the past-date check. The queries that follow bind the start date rendered by
  \<open>formatDate\<close> and the raw \<open>startAt\<close> and \<open>endAt\<close> strings of the request.
\<close>

definition bookingWindowError :: "env \<Rightarrow> string \<Rightarrow> string \<Rightarrow> settings \<Rightarrow> error option" where
  "bookingWindowError e startAt endAt st =
     (let now = Some (clock e);
          startDate = newDate e startAt;
          endDate = newDate e endAt;
          cutoffDays = parseIntOr (booking_cutoff_days st) 2;
          cutoffHours = parseIntOr (booking_cutoff_hours st) 3;
          maxDaysAhead = parseIntOr (booking_max_days_ahead st) 60;
          maxDate = setHours e (setDateBy now maxDaysAhead) 23 59 59 999;
          cutoffDate = setHours e (setDateBy startDate (- cutoffDays)) (23 - cutoffHours) 59 59 999
      in
        if startDate = None \<or> endDate = None then Some InvalidDateTime
        else if lessEqDate endDate startDate then Some EndNotAfterStart
        else if lessDate maxDate startDate then Some (BeyondHorizon maxDaysAhead)
        else if lessDate cutoffDate now then Some BookingClosed
        else if lessEqDate startDate now then Some PastDateTime
        else None)"

definition validateBooking ::
  "env \<Rightarrow> (string, string) db \<Rightarrow> string \<Rightarrow> string \<Rightarrow> int \<Rightarrow> int option \<Rightarrow> settings \<Rightarrow> validation" where
  "validateBooking e d startAt endAt serviceId staffId st =
    (case bookingWindowError e startAt endAt st of
       Some err \<Rightarrow> invalid err
     | None \<Rightarrow>
         let startDate = newDate e startAt;
             dateStr = formatDate (tza e) startDate;
             dayOfWeek = getDay e startDate
         in
           if selectHoliday d dateStr \<noteq> None then invalid (ClosedBecause Kyushinbi)
           else
             (case selectBusinessHours d dayOfWeek of
                None \<Rightarrow> invalid ClosedDay
              | Some businessHours \<Rightarrow>
                  if bh_is_closed businessHours then invalid ClosedDay
                  else if selectActiveService d serviceId = None then invalid InvalidService
                  else if truthy staffId \<and> selectActiveStaff d (the staffId) = None
                    then invalid InvalidStaff
                  else if selectConflict d startAt endAt staffId \<noteq> None
                    then invalid AlreadyBooked
                  else allValid))"

definition validateBookingPg ::
  "env \<Rightarrow> (int, daynum) db \<Rightarrow> string \<Rightarrow> string \<Rightarrow> int \<Rightarrow> int option \<Rightarrow> settings
     \<Rightarrow> thrown + validation" where
  "validateBookingPg e d startAt endAt serviceId staffId st =
    (case bookingWindowError e startAt endAt st of
       Some err \<Rightarrow> Inr (invalid err)
     | None \<Rightarrow>
         let startDate = newDate e startAt;
             dateStr = formatDate (tza e) startDate;
             dayOfWeek = getDay e startDate
         in
           (case pgDate e dateStr of
              None \<Rightarrow> Inl DatabaseError
            | Some day \<Rightarrow>
                if selectHoliday d day \<noteq> None then Inr (invalid (ClosedBecause Kyushinbi))
                else
                  (case selectBusinessHours d dayOfWeek of
                     None \<Rightarrow> Inr (invalid ClosedDay)
                   | Some businessHours \<Rightarrow>
                       if bh_is_closed businessHours then Inr (invalid ClosedDay)
                       else if selectActiveService d serviceId = None
                         then Inr (invalid InvalidService)
                       else if truthy staffId \<and> selectActiveStaff d (the staffId) = None
                         then Inr (invalid InvalidStaff)
                       else
                         (case pgTimestamp e endAt of
                            None \<Rightarrow> Inl DatabaseError
                          | Some endTs \<Rightarrow>
                              (case pgTimestamp e startAt of
                                 None \<Rightarrow> Inl DatabaseError
                               | Some startTs \<Rightarrow>
                                   if selectConflict d startTs endTs staffId \<noteq> None
                                     then Inr (invalid AlreadyBooked)
                                   else Inr allValid)))))"

subsection \<open>Reaching the conflict check\<close>

definition maxDateOf :: "env \<Rightarrow> settings \<Rightarrow> jsdate" where
  \<comment> \<open>\<open>maxDate\<close> of the generators and the validators\<close>
  "maxDateOf e st =
     setHours e (setDateBy (Some (clock e)) (parseIntOr (booking_max_days_ahead st) 60)) 23 59 59 999"

definition cutoffDateOf :: "env \<Rightarrow> jsdate \<Rightarrow> settings \<Rightarrow> jsdate" where
  \<comment> \<open>\<open>cutoffDate\<close> of the generators and the validators, for a target or start Date\<close>
  "cutoffDateOf e target st =
     setHours e (setDateBy target (- parseIntOr (booking_cutoff_days st) 2))
       (23 - parseIntOr (booking_cutoff_hours st) 3) 59 59 999"

definition withinBookingWindow :: "env \<Rightarrow> string \<Rightarrow> string \<Rightarrow> settings \<Rightarrow> bool" where
  \<comment> \<open>both timestamps parse, the interval is not empty, the start is not beyond the
      horizon, the cutoff has not passed, the start is in the future\<close>
  "withinBookingWindow e startAt endAt st =
     (case newDate e startAt of None \<Rightarrow> False | Some s \<Rightarrow>
     (case newDate e endAt of None \<Rightarrow> False | Some en \<Rightarrow>
        s < en
        \<and> \<not> lessDate (maxDateOf e st) (Some s)
        \<and> \<not> lessDate (cutoffDateOf e (Some s) st) (Some (clock e))
        \<and> clock e < s))"






section \<open>The capacity resolver\<close>

text \<open>\<open>getSlotCapacity\<close> of \<open>lib/slots.postgres.js\<close>.\<close>

definition selectSpecificCapacity :: "('t, 'd) db \<Rightarrow> daynum \<Rightarrow> timeofday \<Rightarrow> slot_capacity option" where
  "selectSpecificCapacity d dateStr timeSlot =
     find (\<lambda>c. cap_specific_date c = Some dateStr \<and> cap_time_slot c = timeSlot) (slot_capacities d)"

definition selectDayCapacity :: "('t, 'd) db \<Rightarrow> int \<Rightarrow> timeofday \<Rightarrow> slot_capacity option" where
  "selectDayCapacity d dayOfWeek timeSlot =
     find (\<lambda>c. cap_day_of_week c = Some dayOfWeek \<and> cap_time_slot c = timeSlot
               \<and> cap_specific_date c = None) (slot_capacities d)"

definition getSlotCapacity :: "('t, 'd) db \<Rightarrow> int \<Rightarrow> timeofday \<Rightarrow> settings \<Rightarrow> daynum option \<Rightarrow> int" where
  "getSlotCapacity d dayOfWeek timeSlot st dateStr =
     (case (case dateStr of None \<Rightarrow> None
                          | Some ds \<Rightarrow> selectSpecificCapacity d ds timeSlot) of
        Some specificCapacity \<Rightarrow> cap_capacity specificCapacity
      | None \<Rightarrow>
          (case selectDayCapacity d dayOfWeek timeSlot of
             Some dayCapacity \<Rightarrow> cap_capacity dayCapacity
           | None \<Rightarrow> parseIntOr (default_slot_capacity st) 1))"

section \<open>The slot generator\<close>

text \<open>
  The fields of a slot are strings: \<open>start\<close> and \<open>end\<close> are rendered by \<open>formatTime\<close>,
  \<open>startAt\<close> and \<open>endAt\<close> by \<open>formatDateTime\<close>. A slot of \<open>lib/slots.postgres.js\<close>
  has the booking count and the capacity as well (and a field \<open>time\<close> equal to \<open>start\<close>,
  left out here).
\<close>

record slot =
  slot_start :: string
  slot_end :: string
  startAt :: string
  endAt :: string
  available :: bool

record counted_slot = slot +
  bookingCount :: nat
  capacity :: int

record 'a slots_result =
  slots_error :: "error option"
  slots :: "'a list"

definition failure :: "error \<Rightarrow> 'a slots_result" where
  "failure e = \<lparr> slots_error = Some e, slots = [] \<rparr>"

definition labelOr :: "string option \<Rightarrow> label \<Rightarrow> label" where
  \<comment> \<open>\<open>name || 'word'\<close>: null and the empty string are falsy\<close>
  "labelOr name dflt = (case name of None \<Rightarrow> dflt | Some n \<Rightarrow> if n = [] then dflt else Named n)"

text \<open>
  Both generators begin with the same checks: the date parses, lies within the horizon,
  and its cutoff has not passed. \<open>slotWindowError\<close> is that common part.
\<close>

definition slotWindowError :: "env \<Rightarrow> string \<Rightarrow> settings \<Rightarrow> error option" where
  "slotWindowError e dateStr st =
     (let now = Some (clock e);
          targetDate = newDate e dateStr;
          cutoffDays = parseIntOr (booking_cutoff_days st) 2;
          cutoffHours = parseIntOr (booking_cutoff_hours st) 3;
          maxDaysAhead = parseIntOr (booking_max_days_ahead st) 60;
          maxDate = setHours e (setDateBy now maxDaysAhead) 23 59 59 999;
          cutoffDate = setHours e (setDateBy targetDate (- cutoffDays)) (23 - cutoffHours) 59 59 999
      in
        if targetDate = None then Some InvalidDate
        else if lessDate maxDate targetDate then Some (BeyondHorizon maxDaysAhead)
        else if lessDate cutoffDate now
          then Some (BookingClosedUntil cutoffDays (24 - cutoffHours))
        else None)"

subsection \<open>Schedule exceptions\<close>

definition exceptionRank :: "string \<Rightarrow> nat" where
  \<comment> \<open>\<open>CASE exception_type WHEN 'closed' THEN 1 ... END\<close>; the CASE has no ELSE, so any
      other text gives NULL, which SQLite sorts first: 0 here\<close>
  "exceptionRank t =
     (if t = ''closed'' then 1
      else if t = ''partial_closed'' then 2
      else if t = ''modified_hours'' then 3
      else if t = ''special_open'' then 4
      else 0)"

definition matchesDate :: "string \<Rightarrow> schedule_exception \<Rightarrow> bool" where
  \<comment> \<open>\<open>WHERE ? BETWEEN start_date AND end_date\<close>, on text\<close>
  "matchesDate dateStr x = (ex_start_date x \<le> dateStr \<and> dateStr \<le> ex_end_date x)"

definition selectScheduleException :: "env \<Rightarrow> ('t, 'd) db \<Rightarrow> string \<Rightarrow> schedule_exception option" where
  \<comment> \<open>\<open>ORDER BY CASE ... END LIMIT 1\<close>: the matching rows, in the order SQLite yields
      them, sorted by rank with ties left as they come, and the first of them taken\<close>
  "selectScheduleException e d dateStr =
     (case sort_key (\<lambda>x. exceptionRank (ex_exception_type x))
             (rowOrder e (filter (matchesDate dateStr) (schedule_exceptions d))) of
        [] \<Rightarrow> None
      | x # _ \<Rightarrow> Some x)"

definition isException :: "string \<Rightarrow> schedule_exception option \<Rightarrow> bool" where
  \<comment> \<open>\<open>scheduleException && scheduleException.exception_type === t\<close>\<close>
  "isException t x = (case x of None \<Rightarrow> False | Some ex \<Rightarrow> ex_exception_type ex = t)"

definition spreadHours :: "business_hours option \<Rightarrow> business_hours" where
  \<comment> \<open>\<open>{...businessHours}\<close>: the row's fields, or none of them when there is no row
      (the weekday of the result is not read)\<close>
  "spreadHours b =
     (case b of
        Some row \<Rightarrow> row
      | None \<Rightarrow> \<lparr> bh_day_of_week = 0, bh_open_time = None, bh_close_time = None,
                  bh_morning_open = None, bh_morning_close = None,
                  bh_afternoon_open = None, bh_afternoon_close = None, bh_is_closed = False \<rparr>)"

definition overrideHours ::
  "schedule_exception option \<Rightarrow> business_hours option \<Rightarrow> business_hours option" where
  "overrideHours x b =
     (case x of
        None \<Rightarrow> b
      | Some ex \<Rightarrow>
          if ex_exception_type ex = ''special_open'' then
            Some ((spreadHours b)
              \<lparr> bh_is_closed := False,
                bh_morning_open := orElse (ex_morning_open ex) (Option.bind b bh_morning_open),
                bh_morning_close := orElse (ex_morning_close ex) (Option.bind b bh_morning_close),
                bh_afternoon_open := orElse (ex_afternoon_open ex) (Option.bind b bh_afternoon_open),
                bh_afternoon_close := orElse (ex_afternoon_close ex) (Option.bind b bh_afternoon_close) \<rparr>)
          else if ex_exception_type ex = ''modified_hours'' then
            Some ((spreadHours b)
              \<lparr> bh_is_closed := False,
                bh_morning_open := ex_morning_open ex,
                bh_morning_close := ex_morning_close ex,
                bh_afternoon_open := ex_afternoon_open ex,
                bh_afternoon_close := ex_afternoon_close ex \<rparr>)
          else b)"

definition timePeriods :: "business_hours \<Rightarrow> (timetext \<times> timetext) list" where
  "timePeriods b =
     (let morning = (case (bh_morning_open b, bh_morning_close b) of
                       (Some opn, Some cls) \<Rightarrow> [(opn, cls)] | _ \<Rightarrow> []);
          afternoon = (case (bh_afternoon_open b, bh_afternoon_close b) of
                       (Some opn, Some cls) \<Rightarrow> [(opn, cls)] | _ \<Rightarrow> []);
          both = morning @ afternoon
      in if both = [] then
           (case (bh_open_time b, bh_close_time b) of
              (Some opn, Some cls) \<Rightarrow> [(opn, cls)] | _ \<Rightarrow> [])
         else both)"

subsection \<open>\<open>getAvailableSlots\<close> of \<open>lib/slots.js\<close>\<close>

text \<open>
  \<open>while (currentTime < closeTime) { slotEnd = new Date(currentTime.getTime() +
  serviceDuration * 60000); if (slotEnd > closeTime) break; ...;
  currentTime.setMinutes(currentTime.getMinutes() + slotDuration) }\<close>.
  The model counts iterations down from \<open>fuel\<close> and returns \<open>None\<close> when they are used
  up. \<open>body\<close> decides whether the candidate is pushed onto \<open>slots\<close>.
\<close>

fun whileSlots ::
  "nat \<Rightarrow> (jsdate \<Rightarrow> jsdate \<Rightarrow> 'a option) \<Rightarrow> jsdate \<Rightarrow> int \<Rightarrow> int \<Rightarrow> jsdate \<Rightarrow> 'a list
     \<Rightarrow> 'a list option" where
  "whileSlots 0 body closeTime serviceDuration slotDuration currentTime acc = None"
| "whileSlots (Suc fuel) body closeTime serviceDuration slotDuration currentTime acc =
     (if lessDate currentTime closeTime then
        (if lessDate closeTime (plusMs currentTime (serviceDuration * 60000)) then Some acc
         else whileSlots fuel body closeTime serviceDuration slotDuration
                (setMinutesBy currentTime slotDuration)
                (case body currentTime (plusMs currentTime (serviceDuration * 60000)) of
                   None \<Rightarrow> acc
                 | Some s \<Rightarrow> acc @ [s]))
      else Some acc)"

fun forPeriods ::
  "nat \<Rightarrow> (jsdate \<Rightarrow> jsdate \<Rightarrow> 'a option) \<Rightarrow> int \<Rightarrow> jsdate \<Rightarrow> int \<Rightarrow> int
     \<Rightarrow> (timetext \<times> timetext) list \<Rightarrow> 'a list \<Rightarrow> 'a list option" where
  "forPeriods fuel body tz targetDate serviceDuration slotDuration [] acc = Some acc"
| "forPeriods fuel body tz targetDate serviceDuration slotDuration (period # rest) acc =
     (case whileSlots fuel body (atTimeOfDay tz targetDate (snd period)) serviceDuration
             slotDuration (atTimeOfDay tz targetDate (fst period)) acc of
        None \<Rightarrow> None
      | Some acc' \<Rightarrow> forPeriods fuel body tz targetDate serviceDuration slotDuration rest acc')"

definition otherStaff :: "int option \<Rightarrow> 't appointment \<Rightarrow> bool" where
  \<comment> \<open>\<open>staffId && apt.staff_id && apt.staff_id !== staffId\<close>\<close>
  "otherStaff staffId a = (truthy staffId \<and> truthy (apt_staff_id a) \<and> apt_staff_id a \<noteq> staffId)"

definition selectDayAppointments ::
  "env \<Rightarrow> (string, 'd) db \<Rightarrow> string \<Rightarrow> int option \<Rightarrow> string appointment list" where
  \<comment> \<open>\<open>WHERE DATE(start_at) = ? AND status = 'confirmed'\<close> and the staff clause\<close>
  "selectDayAppointments e d dateStr staffId =
     filter (\<lambda>a. sqliteDate e (apt_start_at a) = Some dateStr \<and> apt_status a = Confirmed
                 \<and> staffClause staffId a) (appointments d)"

definition isBooked :: "int option \<Rightarrow> string appointment list \<Rightarrow> string \<Rightarrow> string \<Rightarrow> bool" where
  \<comment> \<open>the strings are compared as strings\<close>
  "isBooked staffId existingAppointments slotStartStr slotEndStr =
     (\<exists>a \<in> set existingAppointments.
         \<not> otherStaff staffId a \<and> slotStartStr < apt_end_at a \<and> slotEndStr > apt_start_at a)"

definition isInClosedPeriod :: "schedule_exception option \<Rightarrow> string \<Rightarrow> string \<Rightarrow> bool" where
  "isInClosedPeriod x slotStart slotEndTime =
     (case x of
        None \<Rightarrow> False
      | Some ex \<Rightarrow>
          ex_exception_type ex = ''partial_closed'' \<and>
          (case (ex_start_time ex, ex_end_time ex) of
             (Some closedStart, Some closedEnd) \<Rightarrow>
               closedStart \<noteq> [] \<and> closedEnd \<noteq> []
               \<and> slotStart < closedEnd \<and> slotEndTime > closedStart
           | _ \<Rightarrow> False))"

definition slotBody ::
  "env \<Rightarrow> int option \<Rightarrow> string appointment list \<Rightarrow> schedule_exception option
     \<Rightarrow> jsdate \<Rightarrow> jsdate \<Rightarrow> slot option" where
  "slotBody e staffId existingAppointments x currentTime slotEnd =
     (let slotStartStr = formatDateTime (tza e) currentTime;
          slotEndStr = formatDateTime (tza e) slotEnd
      in if \<not> isBooked staffId existingAppointments slotStartStr slotEndStr
            \<and> \<not> isInClosedPeriod x (formatTime (tza e) currentTime) (formatTime (tza e) slotEnd)
            \<and> lessDate (Some (clock e)) currentTime
         then Some \<lparr> slot_start = formatTime (tza e) currentTime,
                     slot_end = formatTime (tza e) slotEnd,
                     startAt = slotStartStr, endAt = slotEndStr, available = True \<rparr>
         else None)"

definition getAvailableSlots ::
  "nat \<Rightarrow> env \<Rightarrow> (string, string) db \<Rightarrow> string \<Rightarrow> int \<Rightarrow> int option \<Rightarrow> settings
     \<Rightarrow> slot slots_result option" where
  "getAvailableSlots fuel e d dateStr serviceId staffId st =
    (case slotWindowError e dateStr st of
       Some err \<Rightarrow> Some (failure err)
     | None \<Rightarrow>
         let targetDate = newDate e dateStr;
             scheduleException = selectScheduleException e d dateStr;
             dayOfWeek = getDay e targetDate;
             businessHours = overrideHours scheduleException (selectBusinessHours d dayOfWeek)
         in
           (case selectHoliday d dateStr of
              Some h \<Rightarrow> Some (failure (ClosedBecause (labelOr (hol_name h) Kyushinbi)))
            | None \<Rightarrow>
                if isException ''closed'' scheduleException
                  then Some (failure (ClosedBecause
                               (labelOr (Option.bind scheduleException ex_reason) RinjiKyugyo)))
                else
                  (case businessHours of
                     None \<Rightarrow> Some (failure ClosedDay)
                   | Some b \<Rightarrow>
                       if bh_is_closed b then Some (failure ClosedDay)
                       else
                         (case selectActiveService d serviceId of
                            None \<Rightarrow> Some (failure InvalidService)
                          | Some service \<Rightarrow>
                              let slotDuration = parseIntOr (slot_duration_minutes st) 30;
                                  serviceDuration = svc_duration_minutes service;
                                  existingAppointments = selectDayAppointments e d dateStr staffId
                              in map_option (\<lambda>xs. \<lparr> slots_error = None, slots = xs \<rparr>)
                                   (forPeriods fuel
                                      (slotBody e staffId existingAppointments scheduleException)
                                      (tza e) targetDate serviceDuration slotDuration
                                      (timePeriods b) [])))))"

subsection \<open>\<open>getAvailableSlots\<close> of \<open>lib/slots.postgres.js\<close>\<close>

text \<open>
  Here \<open>formatDateTime\<close> is \<open>toISOString\<close>, which throws on an Invalid Date, so the body
  of the loop may throw. The driver hands a TIMESTAMP over as the Date that has its
  wall-clock reading in local time. Inside the loop the candidate is a valid Date and the
  weekday of the target date is a number, so the branches for \<open>None\<close> in the arguments
  of \<open>getSlotCapacity\<close> are never taken.
\<close>

definition pgToDate :: "env \<Rightarrow> int \<Rightarrow> jsdate" where
  "pgToDate e w = timeClip (w - tza e)"

definition isLunchTime :: "jsdate \<Rightarrow> jsdate \<Rightarrow> jsdate \<Rightarrow> jsdate \<Rightarrow> bool" where
  "isLunchTime lunchStartTime lunchEndTime currentTime slotEnd =
     ((lessEqDate lunchStartTime currentTime \<and> lessDate currentTime lunchEndTime) \<or>
      (lessDate lunchStartTime slotEnd \<and> lessEqDate slotEnd lunchEndTime) \<or>
      (lessDate currentTime lunchStartTime \<and> lessDate lunchEndTime slotEnd))"

definition overlapsSlot :: "env \<Rightarrow> int option \<Rightarrow> jsdate \<Rightarrow> jsdate \<Rightarrow> int appointment \<Rightarrow> bool" where
  "overlapsSlot e staffId currentTime slotEnd a =
     (\<not> otherStaff staffId a
      \<and> lessDate currentTime (pgToDate e (apt_end_at a))
      \<and> lessDate (pgToDate e (apt_start_at a)) slotEnd)"

definition countBookings ::
  "env \<Rightarrow> int option \<Rightarrow> int appointment list \<Rightarrow> jsdate \<Rightarrow> jsdate \<Rightarrow> nat" where
  "countBookings e staffId existingAppointments currentTime slotEnd =
     length (filter (overlapsSlot e staffId currentTime slotEnd) existingAppointments)"

definition selectDayAppointmentsPg ::
  "(int, 'd) db \<Rightarrow> daynum \<Rightarrow> int option \<Rightarrow> int appointment list" where
  \<comment> \<open>\<open>WHERE DATE(start_at) = $1 AND status = 'confirmed'\<close> and the staff clause\<close>
  "selectDayAppointmentsPg d day staffId =
     filter (\<lambda>a. apt_start_at a div msPerDay = day \<and> apt_status a = Confirmed
                 \<and> staffClause staffId a) (appointments d)"

definition countedBody ::
  "env \<Rightarrow> (int, daynum) db \<Rightarrow> settings \<Rightarrow> int option \<Rightarrow> int appointment list \<Rightarrow> int \<Rightarrow> daynum
     \<Rightarrow> jsdate \<Rightarrow> jsdate \<Rightarrow> jsdate \<Rightarrow> jsdate \<Rightarrow> thrown + counted_slot option" where
  "countedBody e d st staffId existingAppointments dayOfWeek day lunchStartTime lunchEndTime
       currentTime slotEnd =
     (if \<not> isLunchTime lunchStartTime lunchEndTime currentTime slotEnd then
        (case toISOString currentTime of
           None \<Rightarrow> Inl RangeError
         | Some slotStartStr \<Rightarrow>
             (case toISOString slotEnd of
                None \<Rightarrow> Inl RangeError
              | Some slotEndStr \<Rightarrow>
                  let cnt = countBookings e staffId existingAppointments currentTime slotEnd;
                      cap = getSlotCapacity d dayOfWeek
                              (case currentTime of None \<Rightarrow> 0 | Some t \<Rightarrow> minuteOfDay (tza e) t)
                              st (Some day);
                      isAvailable = (int cnt < cap)
                  in if lessDate (Some (clock e)) currentTime
                     then Inr (Some \<lparr> slot_start = formatTime (tza e) currentTime,
                                      slot_end = formatTime (tza e) slotEnd,
                                      startAt = slotStartStr, endAt = slotEndStr,
                                      available = isAvailable,
                                      bookingCount = cnt, capacity = cap \<rparr>)
                     else Inr None))
      else Inr None)"

fun whileSlotsPg ::
  "nat \<Rightarrow> (jsdate \<Rightarrow> jsdate \<Rightarrow> thrown + 'a option) \<Rightarrow> jsdate \<Rightarrow> int \<Rightarrow> int \<Rightarrow> jsdate \<Rightarrow> 'a list
     \<Rightarrow> (thrown + 'a list) option" where
  "whileSlotsPg 0 body closeTime serviceDuration slotDuration currentTime acc = None"
| "whileSlotsPg (Suc fuel) body closeTime serviceDuration slotDuration currentTime acc =
     (if lessDate currentTime closeTime then
        (if lessDate closeTime (plusMs currentTime (serviceDuration * 60000)) then Some (Inr acc)
         else
           (case body currentTime (plusMs currentTime (serviceDuration * 60000)) of
              Inl ex \<Rightarrow> Some (Inl ex)
            | Inr pushed \<Rightarrow>
                whileSlotsPg fuel body closeTime serviceDuration slotDuration
                  (setMinutesBy currentTime slotDuration)
                  (case pushed of None \<Rightarrow> acc | Some s \<Rightarrow> acc @ [s])))
      else Some (Inr acc))"

definition getAvailableSlotsPg ::
  "nat \<Rightarrow> env \<Rightarrow> (int, daynum) db \<Rightarrow> string \<Rightarrow> int \<Rightarrow> int option \<Rightarrow> settings
     \<Rightarrow> (thrown + counted_slot slots_result) option" where
  "getAvailableSlotsPg fuel e d dateStr serviceId staffId st =
    (case slotWindowError e dateStr st of
       Some err \<Rightarrow> Some (Inr (failure err))
     | None \<Rightarrow>
         (case pgDate e dateStr of
            None \<Rightarrow> Some (Inl DatabaseError)
          | Some day \<Rightarrow>
              (case selectHoliday d day of
                 Some h \<Rightarrow> Some (Inr (failure (ClosedBecause (labelOr (hol_name h) Kyushinbi))))
               | None \<Rightarrow>
                   let targetDate = newDate e dateStr;
                       dayOfWeek = getDay e targetDate
                   in
                     (case selectBusinessHours d dayOfWeek of
                        None \<Rightarrow> Some (Inr (failure ClosedDay))
                      | Some b \<Rightarrow>
                          if bh_is_closed b then Some (Inr (failure ClosedDay))
                          else
                            (case selectActiveService d serviceId of
                               None \<Rightarrow> Some (Inr (failure InvalidService))
                             | Some service \<Rightarrow>
                                 (case bh_open_time b of
                                    None \<Rightarrow> Some (Inl TypeError)
                                  | Some opn \<Rightarrow>
                                      (case bh_close_time b of
                                         None \<Rightarrow> Some (Inl TypeError)
                                       | Some cls \<Rightarrow>
                                           let slotDuration = parseIntOr (slot_duration_minutes st) 30;
                                               serviceDuration = svc_duration_minutes service;
                                               lunchStartTime = atTimeOfDay (tza e) targetDate
                                                 (case lunch_start st of
                                                    None \<Rightarrow> (Some 12, Some 0) | Some t \<Rightarrow> t);
                                               lunchEndTime = atTimeOfDay (tza e) targetDate
                                                 (case lunch_end st of
                                                    None \<Rightarrow> (Some 13, Some 0) | Some t \<Rightarrow> t);
                                               existingAppointments =
                                                 selectDayAppointmentsPg d day staffId
                                           in map_option
                                                (map_sum id (\<lambda>xs. \<lparr> slots_error = None, slots = xs \<rparr>))
                                                (whileSlotsPg fuel
                                                   (countedBody e d st staffId existingAppointments
                                                      (case dayOfWeek of None \<Rightarrow> 0 | Some w \<Rightarrow> w)
                                                      day lunchStartTime lunchEndTime)
                                                   (atTimeOfDay (tza e) targetDate cls)
                                                   serviceDuration slotDuration
                                                   (atTimeOfDay (tza e) targetDate opn) []))))))))"

subsection \<open>Notions used to state the properties\<close>

definition cutoffInstant :: "int \<Rightarrow> int \<Rightarrow> int \<Rightarrow> int \<Rightarrow> int" where
  \<comment> \<open>the instant "the local day of \<open>t\<close> minus \<open>cutoffDays\<close> days, at clock time
      \<open>(24 - cutoffHours):00\<close>", as a time value\<close>
  "cutoffInstant tz t cutoffDays cutoffHours =
     (localDay tz t - cutoffDays) * msPerDay + (24 - cutoffHours) * msPerHour - tz"

definition withinSlotWindow :: "env \<Rightarrow> string \<Rightarrow> settings \<Rightarrow> bool" where
  \<comment> \<open>the date parses, is not beyond the horizon, and its cutoff has not passed\<close>
  "withinSlotWindow e dateStr st =
     (case newDate e dateStr of
        None \<Rightarrow> False
      | Some t \<Rightarrow> \<not> lessDate (maxDateOf e st) (Some t)
                  \<and> \<not> lessDate (cutoffDateOf e (Some t) st) (Some (clock e)))"

definition resolvedHours :: "env \<Rightarrow> ('t, 'd) db \<Rightarrow> string \<Rightarrow> business_hours option" where
  \<comment> \<open>the business hours of the date with the chosen exception applied\<close>
  "resolvedHours e d dateStr =
     overrideHours (selectScheduleException e d dateStr)
       (selectBusinessHours d (getDay e (newDate e dateStr)))"

section \<open>The booking flow and the service update\<close>

text \<open>
  \<open>POST /api/appointments\<close> of the SQLite server. The input validation of
  \<open>security.validateAppointmentData\<close> looks at the patient fields and at the presence of
  \<open>serviceId\<close> and \<open>startAt\<close>; \<open>req_fields_ok\<close> is its verdict. \<open>req_serviceId\<close> and
  \<open>req_staffId\<close> are the results of \<open>parseInt\<close> (\<open>None\<close> for NaN; a NaN service id matches
  no service, so the validator rejects the request), \<open>req_staffId_given\<close> is the
  truthiness of the raw \<open>staffId\<close>, and \<open>req_startAt\<close>, \<open>req_endAt\<close> are the strings of the
  request body. Of the rows written, only the appointment is modelled; its status is the
  column default \<open>'confirmed'\<close>, and a staff id that names no row of the staff table
  violates the foreign key, which the route answers with status 500.
\<close>

record booking_request =
  req_fields_ok :: bool
  req_serviceId :: "int option"
  req_staffId_given :: bool
  req_staffId :: "int option"
  req_startAt :: string
  req_endAt :: string

datatype response = Created | BadRequest | ServerError

definition postAppointment ::
  "env \<Rightarrow> (string, string) db \<Rightarrow> booking_request \<Rightarrow> settings \<Rightarrow> (string, string) db \<times> response" where
  "postAppointment e d r st =
     (if \<not> req_fields_ok r then (d, BadRequest)
      else
        (case req_serviceId r of
           None \<Rightarrow> (d, BadRequest)
         | Some serviceId \<Rightarrow>
             let staffId = (if req_staffId_given r then req_staffId r else None);
                 bookingValidation =
                   validateBooking e d (req_startAt r) (req_endAt r) serviceId staffId st
             in if \<not> valid bookingValidation then (d, BadRequest)
                else if staffId \<noteq> None \<and> staffId \<notin> set (map (\<lambda>s. Some (stf_id s)) (staff_members d))
                  then (d, ServerError)
                else
                  (d\<lparr> appointments := appointments d @
                       [\<lparr> apt_service_id = serviceId, apt_staff_id = staffId,
                          apt_start_at = req_startAt r, apt_end_at = req_endAt r,
                          apt_status = Confirmed \<rparr>] \<rparr>,
                   Created)))"

text \<open>\<open>PUT /api/admin/services/:id\<close>, the duration and the active flag.\<close>

definition updateService ::
  "('t, 'd) db \<Rightarrow> int \<Rightarrow> int option \<Rightarrow> bool option \<Rightarrow> ('t, 'd) db" where
  "updateService d serviceId durationMinutes isActive =
     d\<lparr> services := map (\<lambda>s. if svc_id s = serviceId
                               then s\<lparr> svc_duration_minutes :=
                                          (case durationMinutes of None \<Rightarrow> svc_duration_minutes s
                                                                 | Some m \<Rightarrow> m),
                                       svc_is_active :=
                                          (case isActive of None \<Rightarrow> svc_is_active s
                                                          | Some a \<Rightarrow> a) \<rparr>
                               else s) (services d) \<rparr>"

section \<open>A clinic to run the engine on\<close>

subsection \<open>An environment\<close>

text \<open>
  The clinic's server runs in UTC+9. Of the texts that JavaScript, SQLite and PostgreSQL
  can read as dates, this environment reads three shapes and no other:
  \<open>YYYY-MM-DD\<close>, which JavaScript takes as midnight UTC; \<open>YYYY-MM-DD HH:MM:SS\<close> or
  \<open>YYYY-MM-DDTHH:MM:SS\<close>, which JavaScript takes as local time; and
  \<open>YYYY-MM-DDTHH:MM:SS.mmmZ\<close>, which JavaScript takes as UTC and of which PostgreSQL,
  reading a TIMESTAMP without time zone, drops the zone. SQLite's \<open>DATE()\<close> of a readable
  text is its first ten characters. Tied rows come in the order of the table.
\<close>

definition digitVal :: "char \<Rightarrow> int option" where
  "digitVal c = (if CHR ''0'' \<le> c \<and> c \<le> CHR ''9'' then Some (int (of_char c :: nat) - 48) else None)"

definition numberOf :: "string \<Rightarrow> int option" where
  "numberOf s =
     (if s = [] then None
      else fold (\<lambda>c acc. case acc of None \<Rightarrow> None
                                   | Some n \<Rightarrow> map_option (\<lambda>v. 10 * n + v) (digitVal c)) s (Some 0))"

definition parseYMD :: "string \<Rightarrow> daynum option" where
  "parseYMD s =
     (if length s = 10 \<and> s ! 4 = CHR ''-'' \<and> s ! 7 = CHR ''-'' then
        (case (numberOf (take 4 s), numberOf (take 2 (drop 5 s)), numberOf (drop 8 s)) of
           (Some y, Some m, Some dd) \<Rightarrow>
             if civil (daysFromCivil y m dd) = (y, m, dd) then Some (daysFromCivil y m dd) else None
         | _ \<Rightarrow> None)
      else None)"

definition parseHMS :: "string \<Rightarrow> int option" where
  "parseHMS s =
     (if length s = 8 \<and> s ! 2 = CHR '':'' \<and> s ! 5 = CHR '':'' then
        (case (numberOf (take 2 s), numberOf (take 2 (drop 3 s)), numberOf (drop 6 s)) of
           (Some h, Some m, Some sec) \<Rightarrow>
             if h < 24 \<and> m < 60 \<and> sec < 60
             then Some (h * msPerHour + m * msPerMinute + sec * 1000) else None
         | _ \<Rightarrow> None)
      else None)"

definition wallClock :: "string \<Rightarrow> int option" where
  \<comment> \<open>the reading of \<open>YYYY-MM-DD HH:MM:SS\<close> (or with \<open>T\<close>) on the clock it was written on\<close>
  "wallClock s =
     (if length s = 19 \<and> (s ! 10 = CHR '' '' \<or> s ! 10 = CHR ''T'') then
        (case (parseYMD (take 10 s), parseHMS (drop 11 s)) of
           (Some dn, Some ms) \<Rightarrow> Some (dn * msPerDay + ms)
         | _ \<Rightarrow> None)
      else None)"

definition isoUTC :: "string \<Rightarrow> int option" where
  \<comment> \<open>the reading of \<open>YYYY-MM-DDTHH:MM:SS.mmmZ\<close>\<close>
  "isoUTC s =
     (if length s = 24 \<and> s ! 10 = CHR ''T'' \<and> s ! 19 = CHR ''.'' \<and> s ! 23 = CHR ''Z'' then
        (case (wallClock (take 19 s), numberOf (take 3 (drop 20 s))) of
           (Some w, Some ms) \<Rightarrow> Some (w + ms)
         | _ \<Rightarrow> None)
      else None)"

definition jsDateParse :: "int \<Rightarrow> string \<Rightarrow> int option" where
  "jsDateParse tz s =
     (if length s = 10 then map_option (\<lambda>dn. dn * msPerDay) (parseYMD s)
      else if length s = 24 then isoUTC s
      else map_option (\<lambda>w. w - tz) (wallClock s))"

definition pgTimestampOf :: "string \<Rightarrow> int option" where
  "pgTimestampOf s = (if length s = 24 then isoUTC s else wallClock s)"

definition pgDateOf :: "string \<Rightarrow> daynum option" where
  "pgDateOf s =
     (if length s = 10 then parseYMD s
      else map_option (\<lambda>w. w div msPerDay) (pgTimestampOf s))"

definition sqliteDateOf :: "string \<Rightarrow> string option" where
  "sqliteDateOf s =
     (if pgDateOf s \<noteq> None then Some (take 10 s) else None)"

definition jst :: int where
  "jst = 9 * msPerHour"

definition clinicAt :: "int \<Rightarrow> env" where
  "clinicAt now = \<lparr> clock = now, tza = jst, dateParse = jsDateParse jst,
                    sqliteDate = sqliteDateOf, rowOrder = (\<lambda>rows. rows),
                    pgDate = pgDateOf, pgTimestamp = pgTimestampOf \<rparr>"

definition atWall :: "daynum \<Rightarrow> int \<Rightarrow> int \<Rightarrow> int" where
  \<comment> \<open>a zone-less reading: day, hour and minute\<close>
  "atWall dn h m = dn * msPerDay + h * msPerHour + m * msPerMinute"

definition atClock :: "daynum \<Rightarrow> int \<Rightarrow> int \<Rightarrow> int" where
  \<comment> \<open>the time value of that reading on the clinic's clock\<close>
  "atClock dn h m = atWall dn h m - jst"

subsection \<open>The tables\<close>

text \<open>
  Day 18 (1970-01-19) is a Monday. The clinic opens on Mondays 09:00-12:00 and
  13:00-18:00, offers one service of 30 minutes, and keeps the default settings
  (cutoff 2 days and 3 hours, horizon 60 days, slots every 30 minutes, capacity 1).
\<close>

definition defaults :: settings where
  "defaults = \<lparr> booking_cutoff_days = None, booking_cutoff_hours = None,
                booking_max_days_ahead = None, slot_duration_minutes = None,
                default_slot_capacity = None, lunch_start = None, lunch_end = None \<rparr>"

definition hm :: "int \<Rightarrow> int \<Rightarrow> timetext option" where
  "hm h m = Some (Some h, Some m)"

definition mondayHours :: business_hours where
  "mondayHours = \<lparr> bh_day_of_week = 1, bh_open_time = hm 9 0, bh_close_time = hm 18 0,
                   bh_morning_open = hm 9 0, bh_morning_close = hm 12 0,
                   bh_afternoon_open = hm 13 0, bh_afternoon_close = hm 18 0,
                   bh_is_closed = False \<rparr>"

definition checkup :: service where
  "checkup = \<lparr> svc_id = 1, svc_duration_minutes = 30, svc_is_active = True \<rparr>"

definition clinic :: "(string, string) db" where
  "clinic = \<lparr> services = [checkup],
              staff_members = [\<lparr> stf_id = 1, stf_is_active = True \<rparr>,
                               \<lparr> stf_id = 2, stf_is_active = True \<rparr>],
              holidays = [], business_hours_rows = [mondayHours], schedule_exceptions = [],
              slot_capacities = [], appointments = [] \<rparr>"

definition clinicPg :: "(int, daynum) db" where
  "clinicPg = \<lparr> services = [checkup],
                staff_members = [\<lparr> stf_id = 1, stf_is_active = True \<rparr>,
                                 \<lparr> stf_id = 2, stf_is_active = True \<rparr>],
                holidays = [], business_hours_rows = [mondayHours], schedule_exceptions = [],
                slot_capacities = [], appointments = [] \<rparr>"

definition shortMonday :: business_hours where
  \<comment> \<open>a Monday with the single period 09:00-10:00\<close>
  "shortMonday = \<lparr> bh_day_of_week = 1, bh_open_time = hm 9 0, bh_close_time = hm 10 0,
                   bh_morning_open = None, bh_morning_close = None,
                   bh_afternoon_open = None, bh_afternoon_close = None,
                   bh_is_closed = False \<rparr>"

definition nightMonday :: business_hours where
  \<comment> \<open>a Monday with the single period 00:00-01:00\<close>
  "nightMonday = shortMonday\<lparr> bh_open_time := hm 0 0, bh_close_time := hm 1 0 \<rparr>"

definition booked :: "int option \<Rightarrow> 't \<Rightarrow> 't \<Rightarrow> 't appointment" where
  \<comment> \<open>a confirmed appointment\<close>
  "booked who s en = \<lparr> apt_service_id = 1, apt_staff_id = who,
                       apt_start_at = s, apt_end_at = en, apt_status = Confirmed \<rparr>"

definition closure :: "string \<Rightarrow> string \<Rightarrow> string \<Rightarrow> string option \<Rightarrow> schedule_exception" where
  "closure t a b why = \<lparr> ex_exception_type = t, ex_start_date = a, ex_end_date = b,
                         ex_start_time = None, ex_end_time = None,
                         ex_morning_open = None, ex_morning_close = None,
                         ex_afternoon_open = None, ex_afternoon_close = None,
                         ex_reason = why \<rparr>"

definition capacityRows :: "slot_capacity list" where
  "capacityRows =
     [\<lparr> cap_day_of_week = Some 1, cap_specific_date = None, cap_time_slot = 540, cap_capacity = 3 \<rparr>,
      \<lparr> cap_day_of_week = None, cap_specific_date = Some 18, cap_time_slot = 540, cap_capacity = 5 \<rparr>]"


definition spans :: "('a slot_scheme) list \<Rightarrow> (string \<times> string) list" where
  "spans xs = map (\<lambda>x. (startAt x, endAt x)) xs"

definition counts :: "('a counted_slot_scheme) list \<Rightarrow> (string \<times> bool \<times> nat \<times> int) list" where
  "counts xs = map (\<lambda>x. (slot_start x, available x, bookingCount x, capacity x)) xs"

definition starts :: "('a slot_scheme) list \<Rightarrow> string list" where
  "starts xs = map slot_start xs"

subsection \<open>The measure of the loops\<close>

text \<open>
  What decreases from one iteration of the loops to the next: the distance to the close
  for a positive step, the distance to the lower end of the range of a Date for a
  negative one.
\<close>

definition loopMeasure :: "int \<Rightarrow> jsdate \<Rightarrow> jsdate \<Rightarrow> nat" where
  "loopMeasure step cls cur =
     (case cur of
        None \<Rightarrow> 0
      | Some t \<Rightarrow>
          if 0 < step then (case cls of None \<Rightarrow> 0 | Some c \<Rightarrow> nat (c - t))
          else nat (t + maxTime + 1))"

section \<open>Properties of the Date operations\<close>

lemma lessDate_simps [simp]:
  "lessDate (Some a) (Some b) = (a < b)" "lessDate None y = False" "lessDate x None = False"
  by (simp_all add: lessDate_def split: option.splits)

lemma lessEqDate_simps [simp]:
  "lessEqDate (Some a) (Some b) = (a \<le> b)" "lessEqDate None y = False" "lessEqDate x None = False"
  by (simp_all add: lessEqDate_def split: option.splits)

lemma timeClip_Some: "timeClip t = Some u \<Longrightarrow> u = t"
  by (simp add: timeClip_def split: if_splits)

lemma localDay_shift: "localDay tz (t + n * msPerDay) = localDay tz t + n"
proof -
  have "(t + n * msPerDay + tz) div msPerDay = (t + tz + n * msPerDay) div msPerDay"
    by (simp add: algebra_simps)
  also have "\<dots> = (t + tz) div msPerDay + n"
    by (simp add: msPerDay_def)
  finally show ?thesis by (simp add: localDay_def)
qed

lemma localDay_le: "localDay tz t * msPerDay - tz \<le> t"
proof -
  have "(t + tz) div msPerDay * msPerDay \<le> t + tz"
    by (simp add: msPerDay_def)
  then show ?thesis by (simp add: localDay_def)
qed

lemma localDay_gt: "t < localDay tz t * msPerDay + msPerDay - tz"
proof -
  have "(t + tz) mod msPerDay < msPerDay" by (simp add: msPerDay_def)
  moreover have "(t + tz) div msPerDay * msPerDay + (t + tz) mod msPerDay = t + tz"
    by (rule div_mult_mod_eq)
  ultimately have "t + tz < (t + tz) div msPerDay * msPerDay + msPerDay" by linarith
  then show ?thesis by (simp add: localDay_def)
qed

lemma setHoursAt_Some:
  "setHoursAt tz (Some t) h m s ms = Some c \<Longrightarrow>
   c = localDay tz t * msPerDay + h * msPerHour + m * msPerMinute + s * 1000 + ms - tz"
  by (auto simp: setHoursAt_def dest!: timeClip_Some)

lemma setDateBy_Some: "setDateBy (Some t) n = Some u \<Longrightarrow> u = t + n * msPerDay"
  by (auto simp: setDateBy_def plusMs_def dest!: timeClip_Some)

lemma setHoursAt_None [simp]: "setHoursAt tz None h m s ms = None"
  by (simp add: setHoursAt_def)

lemma cutoffDateOf_Some:
  assumes "cutoffDateOf e (Some t) st = Some c"
  shows "c = cutoffInstant (tza e) t (parseIntOr (booking_cutoff_days st) 2)
               (parseIntOr (booking_cutoff_hours st) 3) - 1"
proof -
  let ?cd = "parseIntOr (booking_cutoff_days st) 2"
  let ?ch = "parseIntOr (booking_cutoff_hours st) 3"
  obtain u where u: "setDateBy (Some t) (- ?cd) = Some u"
    using assms by (cases "setDateBy (Some t) (- ?cd)") (simp_all add: cutoffDateOf_def setHours_def)
  then have u': "u = t + (- ?cd) * msPerDay" by (rule setDateBy_Some)
  have day: "localDay (tza e) u = localDay (tza e) t - ?cd"
    unfolding u' using localDay_shift [of "tza e" t "- ?cd"] by simp
  from assms u have "setHoursAt (tza e) (Some u) (23 - ?ch) 59 59 999 = Some c"
    by (simp add: cutoffDateOf_def setHours_def)
  then have "c = localDay (tza e) u * msPerDay + (23 - ?ch) * msPerHour + 59 * msPerMinute
                 + 59 * 1000 + 999 - tza e"
    by (rule setHoursAt_Some)
  then show ?thesis
    unfolding day cutoffInstant_def by (simp add: msPerHour_def msPerMinute_def algebra_simps)
qed

lemma maxDateOf_Some:
  assumes "maxDateOf e st = Some m" and "0 \<le> parseIntOr (booking_max_days_ahead st) 60"
  shows "clock e \<le> m"
proof -
  let ?n = "parseIntOr (booking_max_days_ahead st) 60"
  from assms(1) obtain u where u: "timeClip (clock e + ?n * msPerDay) = Some u"
    by (auto simp: maxDateOf_def setHours_def setHoursAt_def setDateBy_def plusMs_def
        split: option.splits)
  then have u': "u = clock e + ?n * msPerDay" by (rule timeClip_Some)
  from assms(1) u have m: "m = localDay (tza e) u * msPerDay + 23 * msPerHour + 59 * msPerMinute
      + 59 * 1000 + 999 - tza e"
    by (auto simp: maxDateOf_def setHours_def setHoursAt_def setDateBy_def plusMs_def
        dest!: timeClip_Some)
  have "u < localDay (tza e) u * msPerDay + msPerDay - tza e" by (rule localDay_gt)
  then have "u \<le> m" unfolding m by (simp add: msPerDay_def msPerHour_def msPerMinute_def)
  moreover have "clock e \<le> u" unfolding u' using assms(2) by (simp add: msPerDay_def)
  ultimately show ?thesis by simp
qed

section \<open>Properties of the booking validator\<close>

lemma bookingWindowError_None:
  "(bookingWindowError e sAt eAt st = None) = withinBookingWindow e sAt eAt st"
  by (auto simp: bookingWindowError_def withinBookingWindow_def maxDateOf_def cutoffDateOf_def
      Let_def split: option.splits)















subsection \<open>The cutoff comes before the past-date check\<close>

lemma cutoff_before_start:
  assumes "cutoffDateOf e (Some s) st = Some c"
    and "0 \<le> parseIntOr (booking_cutoff_days st) 2"
    and "0 \<le> parseIntOr (booking_cutoff_hours st) 3"
  shows "c < s"
proof -
  let ?cd = "parseIntOr (booking_cutoff_days st) 2"
  let ?ch = "parseIntOr (booking_cutoff_hours st) 3"
  have cd: "1 \<le> ?cd"
    using assms(2) by (auto simp: parseIntOr_def split: option.splits if_splits)
  have c: "c = (localDay (tza e) s - ?cd) * msPerDay + (24 - ?ch) * msPerHour - tza e - 1"
    using cutoffDateOf_Some [OF assms(1)] by (simp add: cutoffInstant_def)
  have "(localDay (tza e) s - ?cd) * msPerDay \<le> (localDay (tza e) s - 1) * msPerDay"
    using cd by (simp add: msPerDay_def)
  moreover have "(24 - ?ch) * msPerHour \<le> msPerDay"
    using assms(3) by (simp add: msPerDay_def msPerHour_def)
  moreover have "localDay (tza e) s * msPerDay - tza e \<le> s" by (rule localDay_le)
  ultimately show ?thesis unfolding c by (simp add: algebra_simps)
qed

lemma window_one_second_ago:
  assumes "newDate e sAt = Some (clock e - 1000)"
  shows "\<exists>err. bookingWindowError e sAt eAt st = Some err"
  using assms by (auto simp: bookingWindowError_def Let_def)

lemma window_past:
  assumes "newDate e sAt = Some (clock e - 1000)"
  shows "(bookingWindowError e sAt eAt st = Some PastDateTime) =
         ((\<exists>en. newDate e eAt = Some en \<and> clock e - 1000 < en)
          \<and> \<not> lessDate (maxDateOf e st) (newDate e sAt)
          \<and> \<not> lessDate (cutoffDateOf e (newDate e sAt) st) (Some (clock e)))"
  using assms
  by (cases "newDate e eAt")
     (auto simp: bookingWindowError_def maxDateOf_def cutoffDateOf_def Let_def)

lemma window_closed:
  assumes s: "newDate e sAt = Some (clock e - 1000)"
    and en: "newDate e eAt = Some en" "clock e - 1000 < en"
    and nn: "0 \<le> parseIntOr (booking_max_days_ahead st) 60"
      "0 \<le> parseIntOr (booking_cutoff_days st) 2"
      "0 \<le> parseIntOr (booking_cutoff_hours st) 3"
    and c: "cutoffDateOf e (newDate e sAt) st \<noteq> None"
  shows "bookingWindowError e sAt eAt st = Some BookingClosed"
proof -
  from c obtain cv where cv: "cutoffDateOf e (Some (clock e - 1000)) st = Some cv"
    unfolding s by auto
  have "cv < clock e - 1000" by (rule cutoff_before_start [OF cv nn(2) nn(3)])
  then have closed: "lessDate (cutoffDateOf e (Some (clock e - 1000)) st) (Some (clock e))"
    unfolding cv by simp
  have horizon: "\<not> lessDate (maxDateOf e st) (Some (clock e - 1000))"
  proof (cases "maxDateOf e st")
    case None
    then show ?thesis by simp
  next
    case (Some m)
    with maxDateOf_Some [OF Some nn(1)] show ?thesis by simp
  qed
  show ?thesis
    using s en closed horizon
    by (simp add: bookingWindowError_def Let_def maxDateOf_def cutoffDateOf_def)
qed

text \<open>
  C9 (as amended). A call whose \<open>startAt\<close> is one second before "now" is always rejected,
  by both validators. The cutoff check runs before the past-date check: with an end
  after the start, non-negative effective horizon and cutoff settings and a cutoff Date
  within the range of a Date, the error is the booking-closed error. The past-date error
  is returned exactly when the end is after the start, the start is not beyond the horizon
  and the cutoff check does not fire, because "now" is not after the cutoff Date or
  because that Date is invalid and every comparison with it is false.
\<close>

theorem one_second_ago_rejected:
  assumes "newDate e sAt = Some (clock e - 1000)"
  shows "\<not> valid (validateBooking e d sAt eAt serviceId staffId st)
       \<and> (\<exists>err. validateBookingPg e p sAt eAt serviceId staffId st = Inr (invalid err))
       \<and> ((\<exists>en. newDate e eAt = Some en \<and> clock e - 1000 < en)
            \<and> 0 \<le> parseIntOr (booking_max_days_ahead st) 60
            \<and> 0 \<le> parseIntOr (booking_cutoff_days st) 2
            \<and> 0 \<le> parseIntOr (booking_cutoff_hours st) 3
            \<and> cutoffDateOf e (newDate e sAt) st \<noteq> None
          \<longrightarrow> validateBooking e d sAt eAt serviceId staffId st = invalid BookingClosed
            \<and> validateBookingPg e p sAt eAt serviceId staffId st = Inr (invalid BookingClosed))
       \<and> (validateBooking e d sAt eAt serviceId staffId st = invalid PastDateTime
          \<longleftrightarrow> (\<exists>en. newDate e eAt = Some en \<and> clock e - 1000 < en)
              \<and> \<not> lessDate (maxDateOf e st) (newDate e sAt)
              \<and> \<not> lessDate (cutoffDateOf e (newDate e sAt) st) (Some (clock e)))
       \<and> (validateBookingPg e p sAt eAt serviceId staffId st = Inr (invalid PastDateTime)
          \<longleftrightarrow> validateBooking e d sAt eAt serviceId staffId st = invalid PastDateTime)"
proof -
  obtain err where err: "bookingWindowError e sAt eAt st = Some err"
    using window_one_second_ago [OF assms] by blast
  have v: "validateBooking e d sAt eAt serviceId staffId st = invalid err"
    by (simp add: validateBooking_def err)
  have vp: "validateBookingPg e p sAt eAt serviceId staffId st = Inr (invalid err)"
    by (simp add: validateBookingPg_def err)
  have closed: "err = BookingClosed"
    if "(\<exists>en. newDate e eAt = Some en \<and> clock e - 1000 < en)
            \<and> 0 \<le> parseIntOr (booking_max_days_ahead st) 60
            \<and> 0 \<le> parseIntOr (booking_cutoff_days st) 2
            \<and> 0 \<le> parseIntOr (booking_cutoff_hours st) 3
            \<and> cutoffDateOf e (newDate e sAt) st \<noteq> None"
    using that window_closed [OF assms, of eAt _ st] err by auto
  have past: "(err = PastDateTime) =
         ((\<exists>en. newDate e eAt = Some en \<and> clock e - 1000 < en)
          \<and> \<not> lessDate (maxDateOf e st) (newDate e sAt)
          \<and> \<not> lessDate (cutoffDateOf e (newDate e sAt) st) (Some (clock e)))"
    using window_past [OF assms, of eAt st] err by simp
  have inj: "\<And>x y. (invalid x = invalid y) = (x = y)"
    by (simp add: invalid_def)
  show ?thesis
    unfolding v vp using closed past by (simp add: inj) (simp add: invalid_def)
qed

text \<open>
  With every other field valid and the default settings the error is the booking-closed
  one; with a cutoff of 200000000 days the cutoff Date is invalid and the error is the
  past-date one.
\<close>

theorem one_second_ago_rejected_witness:
  "newDate (clinicAt (atClock 18 10 0 + 1000)) ''1970-01-19 10:00:00''
     = Some (clock (clinicAt (atClock 18 10 0 + 1000)) - 1000)
   \<and> validateBooking (clinicAt (atClock 18 10 0 + 1000)) clinic
        ''1970-01-19 10:00:00'' ''1970-01-19 10:30:00'' 1 None defaults = invalid BookingClosed
   \<and> validateBookingPg (clinicAt (atClock 18 10 0 + 1000)) clinicPg
        ''1970-01-19 10:00:00'' ''1970-01-19 10:30:00'' 1 None defaults
       = Inr (invalid BookingClosed)
   \<and> cutoffDateOf (clinicAt (atClock 18 10 0 + 1000)) (Some (atClock 18 10 0))
        (defaults\<lparr> booking_cutoff_days := Some 200000000 \<rparr>) = None
   \<and> validateBooking (clinicAt (atClock 18 10 0 + 1000)) clinic
        ''1970-01-19 10:00:00'' ''1970-01-19 10:30:00'' 1 None
        (defaults\<lparr> booking_cutoff_days := Some 200000000 \<rparr>) = invalid PastDateTime"
proof -
  let ?e = "clinicAt (atClock 18 10 0 + 1000)"
  let ?s = "''1970-01-19 10:00:00''" and ?m = "''1970-01-19 10:30:00''"
  let ?big = "defaults\<lparr> booking_cutoff_days := Some 200000000 \<rparr>"
  have s: "newDate ?e ?s = Some (clock ?e - 1000)" by code_simp
  have h1: "(\<exists>en. newDate ?e ?m = Some en \<and> clock ?e - 1000 < en)
            \<and> 0 \<le> parseIntOr (booking_max_days_ahead defaults) 60
            \<and> 0 \<le> parseIntOr (booking_cutoff_days defaults) 2
            \<and> 0 \<le> parseIntOr (booking_cutoff_hours defaults) 3
            \<and> cutoffDateOf ?e (newDate ?e ?s) defaults \<noteq> None"
  proof -
    have "newDate ?e ?m = Some (atClock 18 10 30) \<and> clock ?e - 1000 < atClock 18 10 30
            \<and> 0 \<le> parseIntOr (booking_max_days_ahead defaults) 60
            \<and> 0 \<le> parseIntOr (booking_cutoff_days defaults) 2
            \<and> 0 \<le> parseIntOr (booking_cutoff_hours defaults) 3
            \<and> cutoffDateOf ?e (newDate ?e ?s) defaults \<noteq> None"
      by code_simp
    then show ?thesis by blast
  qed
  have h2: "(\<exists>en. newDate ?e ?m = Some en \<and> clock ?e - 1000 < en)
              \<and> \<not> lessDate (maxDateOf ?e ?big) (newDate ?e ?s)
              \<and> \<not> lessDate (cutoffDateOf ?e (newDate ?e ?s) ?big) (Some (clock ?e))"
  proof -
    have "newDate ?e ?m = Some (atClock 18 10 30) \<and> clock ?e - 1000 < atClock 18 10 30
              \<and> \<not> lessDate (maxDateOf ?e ?big) (newDate ?e ?s)
              \<and> \<not> lessDate (cutoffDateOf ?e (newDate ?e ?s) ?big) (Some (clock ?e))"
      by code_simp
    then show ?thesis by blast
  qed
  have a: "validateBooking ?e clinic ?s ?m 1 None defaults = invalid BookingClosed
         \<and> validateBookingPg ?e clinicPg ?s ?m 1 None defaults = Inr (invalid BookingClosed)"
    using one_second_ago_rejected [OF s, where eAt = ?m and st = defaults and d = clinic
        and p = clinicPg and serviceId = 1 and staffId = None] h1 by blast
  have b: "validateBooking ?e clinic ?s ?m 1 None ?big = invalid PastDateTime"
    using one_second_ago_rejected [OF s, where eAt = ?m and st = ?big and d = clinic
        and serviceId = 1 and staffId = None] h2 by blast
  have c: "cutoffDateOf ?e (Some (atClock 18 10 0)) ?big = None" by code_simp
  from s a b c show ?thesis by (intro conjI) simp_all
qed

text \<open>
  C9 as stated fails: one second after Monday 10:00, a booking for Monday 10:00-10:30
  with a valid service and the default settings is rejected with the booking-closed error,
  not the past-date error.
\<close>

theorem past_error_counterexample:
  "newDate (clinicAt (atClock 18 10 0 + 1000)) ''1970-01-19 10:00:00''
     = Some (clock (clinicAt (atClock 18 10 0 + 1000)) - 1000)
   \<and> validateBooking (clinicAt (atClock 18 10 0 + 1000)) clinic
        ''1970-01-19 10:00:00'' ''1970-01-19 10:30:00'' 1 None defaults = invalid BookingClosed
   \<and> invalid BookingClosed \<noteq> invalid PastDateTime"
  by code_simp

text \<open>
  C7. A \<open>closed\<close> exception with reason "New Year" covers the Monday. The slot generator
  reports the closure with its reason; the validator, which never reads the exception
  table, accepts a booking on that day.
\<close>

theorem closed_exception_not_checked:
  "getAvailableSlots 1 (clinicAt (atClock 4 8 0))
      (clinic\<lparr> schedule_exceptions :=
                 [closure ''closed'' ''1970-01-19'' ''1970-01-19'' (Some ''New Year'')] \<rparr>)
      ''1970-01-19'' 1 None defaults
     = Some (failure (ClosedBecause (Named ''New Year'')))
   \<and> validateBooking (clinicAt (atClock 4 8 0))
      (clinic\<lparr> schedule_exceptions :=
                 [closure ''closed'' ''1970-01-19'' ''1970-01-19'' (Some ''New Year'')] \<rparr>)
      ''1970-01-19 10:00:00'' ''1970-01-19 10:30:00'' 1 None defaults
     = allValid"
  by code_simp

subsection \<open>What the booking flow does guarantee\<close>

text \<open>
  A created appointment is confirmed, carries the two texts of the request, and the Date
  of its start is before the Date of its end; updating a service leaves the appointments
  as they are.
\<close>

lemma postAppointment_created:
  assumes "postAppointment e d r st = (d', Created)"
  shows "\<exists>a. d' = d\<lparr> appointments := appointments d @ [a] \<rparr>
           \<and> apt_status a = Confirmed
           \<and> apt_start_at a = req_startAt r \<and> apt_end_at a = req_endAt r
           \<and> lessDate (newDate e (apt_start_at a)) (newDate e (apt_end_at a))"
proof -
  from assms obtain serviceId where
    sid: "req_serviceId r = Some serviceId"
    and v: "valid (validateBooking e d (req_startAt r) (req_endAt r) serviceId
                     (if req_staffId_given r then req_staffId r else None) st)"
    and d': "d' = d\<lparr> appointments := appointments d @
                 [\<lparr> apt_service_id = serviceId,
                    apt_staff_id = (if req_staffId_given r then req_staffId r else None),
                    apt_start_at = req_startAt r, apt_end_at = req_endAt r,
                    apt_status = Confirmed \<rparr>] \<rparr>"
    by (auto simp: postAppointment_def Let_def split: if_splits option.splits)
  have w: "bookingWindowError e (req_startAt r) (req_endAt r) st = None"
  proof (cases "bookingWindowError e (req_startAt r) (req_endAt r) st")
    case None
    then show ?thesis .
  next
    case (Some err)
    with v show ?thesis by (simp add: validateBooking_def invalid_def)
  qed
  then have "lessDate (newDate e (req_startAt r)) (newDate e (req_endAt r))"
    by (auto simp: bookingWindowError_None withinBookingWindow_def split: option.splits)
  then show ?thesis
    unfolding d'
    by (intro exI [of _ "\<lparr> apt_service_id = serviceId,
                    apt_staff_id = (if req_staffId_given r then req_staffId r else None),
                    apt_start_at = req_startAt r, apt_end_at = req_endAt r,
                    apt_status = Confirmed \<rparr>"]) simp
qed

lemma updateService_appointments:
  "appointments (updateService d serviceId durationMinutes isActive) = appointments d"
  by (simp add: updateService_def)

text \<open>
  C8. The booking flow stores the end the client sent: a request for 10:00-15:00 with the
  30-minute service creates a confirmed appointment of 300 minutes.
\<close>

theorem booking_flow_keeps_client_end:
  "postAppointment (clinicAt (atClock 4 8 0)) clinic
      \<lparr> req_fields_ok = True, req_serviceId = Some 1, req_staffId_given = False,
        req_staffId = None,
        req_startAt = ''1970-01-19 10:00:00'', req_endAt = ''1970-01-19 15:00:00'' \<rparr> defaults
   = (clinic\<lparr> appointments :=
         [\<lparr> apt_service_id = 1, apt_staff_id = None, apt_start_at = ''1970-01-19 10:00:00'',
            apt_end_at = ''1970-01-19 15:00:00'', apt_status = Confirmed \<rparr>] \<rparr>,
      Created)
   \<and> newDate (clinicAt (atClock 4 8 0)) ''1970-01-19 15:00:00''
      = plusMs (newDate (clinicAt (atClock 4 8 0)) ''1970-01-19 10:00:00'') (300 * msPerMinute)
   \<and> selectActiveService clinic 1 = Some checkup \<and> svc_duration_minutes checkup = 30"
  by code_simp

section \<open>Properties of the capacity resolver\<close>

lemma find_SomeD: "find P xs = Some x \<Longrightarrow> x \<in> set xs \<and> P x"
  by (induction xs) (auto split: if_splits)

lemma getSlotCapacity_specific:
  assumes "\<exists>r \<in> set (slot_capacities d). cap_specific_date r = Some ds \<and> cap_time_slot r = t"
  shows "\<exists>r \<in> set (slot_capacities d). cap_specific_date r = Some ds \<and> cap_time_slot r = t
           \<and> getSlotCapacity d dow t st (Some ds) = cap_capacity r"
proof -
  from assms obtain r where r: "selectSpecificCapacity d ds t = Some r"
    by (fastforce simp: selectSpecificCapacity_def find_None_iff)
  then have "r \<in> set (slot_capacities d) \<and> cap_specific_date r = Some ds \<and> cap_time_slot r = t"
    unfolding selectSpecificCapacity_def by (blast dest: find_SomeD)
  moreover have "getSlotCapacity d dow t st (Some ds) = cap_capacity r"
    using r by (simp add: getSlotCapacity_def)
  ultimately show ?thesis by blast
qed

lemma noSpecific:
  assumes "\<forall>ds. dateStr = Some ds \<longrightarrow>
             \<not> (\<exists>r \<in> set (slot_capacities d). cap_specific_date r = Some ds \<and> cap_time_slot r = t)"
  shows "(case dateStr of None \<Rightarrow> None | Some ds \<Rightarrow> selectSpecificCapacity d ds t) = None"
  using assms by (auto simp: selectSpecificCapacity_def find_None_iff split: option.splits)

lemma getSlotCapacity_weekday:
  assumes "\<forall>ds. dateStr = Some ds \<longrightarrow>
             \<not> (\<exists>r \<in> set (slot_capacities d). cap_specific_date r = Some ds \<and> cap_time_slot r = t)"
    and "\<exists>r \<in> set (slot_capacities d).
             cap_day_of_week r = Some dow \<and> cap_time_slot r = t \<and> cap_specific_date r = None"
  shows "\<exists>r \<in> set (slot_capacities d).
             cap_day_of_week r = Some dow \<and> cap_time_slot r = t \<and> cap_specific_date r = None
           \<and> getSlotCapacity d dow t st dateStr = cap_capacity r"
proof -
  from assms(2) obtain r where r: "selectDayCapacity d dow t = Some r"
    by (fastforce simp: selectDayCapacity_def find_None_iff)
  then have "r \<in> set (slot_capacities d) \<and> cap_day_of_week r = Some dow \<and> cap_time_slot r = t
               \<and> cap_specific_date r = None"
    unfolding selectDayCapacity_def by (blast dest: find_SomeD)
  moreover have "getSlotCapacity d dow t st dateStr = cap_capacity r"
    using r noSpecific [OF assms(1)] by (simp add: getSlotCapacity_def)
  ultimately show ?thesis by blast
qed

lemma getSlotCapacity_default:
  assumes "\<forall>ds. dateStr = Some ds \<longrightarrow>
             \<not> (\<exists>r \<in> set (slot_capacities d). cap_specific_date r = Some ds \<and> cap_time_slot r = t)"
    and "\<not> (\<exists>r \<in> set (slot_capacities d).
             cap_day_of_week r = Some dow \<and> cap_time_slot r = t \<and> cap_specific_date r = None)"
  shows "getSlotCapacity d dow t st dateStr =
           (case default_slot_capacity st of None \<Rightarrow> 1 | Some v \<Rightarrow> if v = 0 then 1 else v)"
proof -
  have "selectDayCapacity d dow t = None"
    using assms(2) by (auto simp: selectDayCapacity_def find_None_iff)
  then show ?thesis
    using noSpecific [OF assms(1)] by (simp add: getSlotCapacity_def parseIntOr_def)
qed

lemma getSlotCapacity_ge_1:
  assumes "\<forall>r \<in> set (slot_capacities d). 1 \<le> cap_capacity r"
    and "\<forall>v. default_slot_capacity st = Some v \<longrightarrow> 0 \<le> v"
  shows "1 \<le> getSlotCapacity d dow t st dateStr"
proof -
  have dflt: "1 \<le> parseIntOr (default_slot_capacity st) 1"
    using assms(2) by (auto simp: parseIntOr_def split: option.splits)
  have sp: "\<And>ds r. selectSpecificCapacity d ds t = Some r \<Longrightarrow> 1 \<le> cap_capacity r"
    unfolding selectSpecificCapacity_def using assms(1) by (blast dest: find_SomeD)
  have dy: "\<And>r. selectDayCapacity d dow t = Some r \<Longrightarrow> 1 \<le> cap_capacity r"
    unfolding selectDayCapacity_def using assms(1) by (blast dest: find_SomeD)
  show ?thesis
    using dflt sp dy by (auto simp: getSlotCapacity_def split: option.splits)
qed

text \<open>
  C5 (as amended). The capacity is resolved in this order: the row for the specific date
  and time of day, if a date is given and such a row exists; else the row for the weekday
  and time of day that has no specific date; else the default setting, with 1 in its place
  when the setting is absent, not numeric or zero. The result is at least 1 whenever every
  stored row has a capacity of at least 1 (the table's check constraint) and the default
  setting is not a negative number.
\<close>

theorem capacity_lookup_order:
  "(\<forall>ds. dateStr = Some ds
        \<and> (\<exists>r \<in> set (slot_capacities d). cap_specific_date r = Some ds \<and> cap_time_slot r = t)
      \<longrightarrow> (\<exists>r \<in> set (slot_capacities d). cap_specific_date r = Some ds \<and> cap_time_slot r = t
              \<and> getSlotCapacity d dow t st dateStr = cap_capacity r))
   \<and> ((\<forall>ds. dateStr = Some ds \<longrightarrow>
          \<not> (\<exists>r \<in> set (slot_capacities d). cap_specific_date r = Some ds \<and> cap_time_slot r = t))
      \<and> (\<exists>r \<in> set (slot_capacities d).
             cap_day_of_week r = Some dow \<and> cap_time_slot r = t \<and> cap_specific_date r = None)
      \<longrightarrow> (\<exists>r \<in> set (slot_capacities d).
             cap_day_of_week r = Some dow \<and> cap_time_slot r = t \<and> cap_specific_date r = None
           \<and> getSlotCapacity d dow t st dateStr = cap_capacity r))
   \<and> ((\<forall>ds. dateStr = Some ds \<longrightarrow>
          \<not> (\<exists>r \<in> set (slot_capacities d). cap_specific_date r = Some ds \<and> cap_time_slot r = t))
      \<and> \<not> (\<exists>r \<in> set (slot_capacities d).
             cap_day_of_week r = Some dow \<and> cap_time_slot r = t \<and> cap_specific_date r = None)
      \<longrightarrow> getSlotCapacity d dow t st dateStr =
            (case default_slot_capacity st of None \<Rightarrow> 1 | Some v \<Rightarrow> if v = 0 then 1 else v))
   \<and> ((\<forall>r \<in> set (slot_capacities d). 1 \<le> cap_capacity r)
      \<and> (\<forall>v. default_slot_capacity st = Some v \<longrightarrow> 0 \<le> v)
      \<longrightarrow> 1 \<le> getSlotCapacity d dow t st dateStr)"
  using getSlotCapacity_specific [of d _ t dow st]
        getSlotCapacity_weekday [of dateStr d t dow st]
        getSlotCapacity_default [of dateStr d t dow st]
        getSlotCapacity_ge_1 [of d st dow t dateStr]
  by blast

text \<open>
  With a Monday 09:00 row of capacity 3 and a row for day 18, 09:00 of capacity 5: day 18
  resolves to 5, another Monday to 3, and 09:30 to the default 1.
\<close>

theorem capacity_lookup_order_witness:
  "getSlotCapacity (clinic\<lparr> slot_capacities := capacityRows \<rparr>) 1 540 defaults (Some 18) = 5
   \<and> getSlotCapacity (clinic\<lparr> slot_capacities := capacityRows \<rparr>) 1 540 defaults (Some 25) = 3
   \<and> getSlotCapacity (clinic\<lparr> slot_capacities := capacityRows \<rparr>) 1 570 defaults (Some 18) = 1"
  using capacity_lookup_order [of "Some 18" "clinic\<lparr> slot_capacities := capacityRows \<rparr>" 540 1 defaults]
        capacity_lookup_order [of "Some 25" "clinic\<lparr> slot_capacities := capacityRows \<rparr>" 540 1 defaults]
        capacity_lookup_order [of "Some 18" "clinic\<lparr> slot_capacities := capacityRows \<rparr>" 570 1 defaults]
  by (simp add: capacityRows_def clinic_def defaults_def)

text \<open>
  C5 as stated fails: with no matching row and the default setting "-3", the resolver
  returns -3, which is below 1.
\<close>

theorem capacity_negative_counterexample:
  "getSlotCapacity clinic 1 540 (defaults\<lparr> default_slot_capacity := Some (- 3) \<rparr>) (Some 18) = - 3"
  by (simp add: getSlotCapacity_def selectSpecificCapacity_def selectDayCapacity_def
      parseIntOr_def clinic_def defaults_def)


section \<open>Precedence of schedule exceptions\<close>

lemma slotWindowError_None:
  "(slotWindowError e dateStr st = None) = withinSlotWindow e dateStr st"
  by (auto simp: slotWindowError_def withinSlotWindow_def maxDateOf_def cutoffDateOf_def
      Let_def split: option.splits)










section \<open>Properties of the slot generator\<close>

subsection \<open>The loop of \<open>lib/slots.js\<close>\<close>

lemma plusMs_Some [simp]: "plusMs (Some t) n = timeClip (t + n)"
  by (simp add: plusMs_def)

lemma plusMs_None [simp]: "plusMs None n = None"
  by (simp add: plusMs_def)

lemma timeClip_eq_Some: "(timeClip t = Some u) = (u = t \<and> - maxTime \<le> t \<and> t \<le> maxTime)"
  by (auto simp: timeClip_def)


lemma whileSlots_more_fuel:
  "whileSlots fuel body cls dur step cur acc = Some out \<Longrightarrow>
   whileSlots (fuel + k) body cls dur step cur acc = Some out"
proof (induction fuel arbitrary: cur acc)
  case 0
  then show ?case by simp
next
  case (Suc fuel)
  then show ?case by (auto split: if_splits)
qed

lemma loopMeasure_decreases:
  assumes "step \<noteq> 0" and "t < c" and "setMinutesBy (Some t) step = Some t'"
  shows "loopMeasure step (Some c) (Some t') < loopMeasure step (Some c) (Some t)"
proof -
  from assms(3) have t': "t' = t + step * msPerMinute" and r: "- maxTime \<le> t'"
    by (auto simp: setMinutesBy_def timeClip_eq_Some)
  show ?thesis
  proof (cases "0 < step")
    case True
    then have "t < t'" unfolding t' by (simp add: msPerMinute_def)
    with assms(2) True show ?thesis by (simp add: loopMeasure_def)
  next
    case False
    with assms(1) have "step < 0" by simp
    then have "t' < t" unfolding t' by (simp add: msPerMinute_def)
    with r False show ?thesis by (simp add: loopMeasure_def)
  qed
qed

lemma whileSlots_terminates:
  assumes "step \<noteq> 0"
  shows "\<exists>fuel. \<forall>acc. whileSlots fuel body cls dur step cur acc \<noteq> None"
proof (induction "loopMeasure step cls cur" arbitrary: cur rule: less_induct)
  case less
  show ?case
  proof (cases "lessDate cur cls")
    case False
    then have "\<forall>acc. whileSlots (Suc 0) body cls dur step cur acc \<noteq> None" by simp
    then show ?thesis by blast
  next
    case True
    then obtain t c where c: "cur = Some t" "cls = Some c" "t < c"
      by (auto simp: lessDate_def split: option.splits)
    show ?thesis
    proof (cases "lessDate cls (timeClip (t + dur * 60000))")
      case True
      with c have "\<forall>acc. whileSlots (Suc 0) body cls dur step cur acc \<noteq> None" by simp
      then show ?thesis by blast
    next
      case False
      show ?thesis
      proof (cases "setMinutesBy cur step")
        case None
        with c False have "\<forall>acc. whileSlots (Suc (Suc 0)) body cls dur step cur acc \<noteq> None"
          by simp
        then show ?thesis by blast
      next
        case (Some t')
        then have "loopMeasure step cls (Some t') < loopMeasure step cls cur"
          using loopMeasure_decreases [OF assms c(3)] c by simp
        from less [OF this] obtain fuel where
          f: "\<forall>acc. whileSlots fuel body cls dur step (Some t') acc \<noteq> None" by blast
        have "\<forall>acc. whileSlots (Suc fuel) body cls dur step cur acc \<noteq> None"
          using c False Some f by simp
        then show ?thesis by blast
      qed
    qed
  qed
qed


lemma forPeriods_more_fuel:
  "forPeriods fuel body tz target dur step ps acc = Some out \<Longrightarrow>
   forPeriods (fuel + k) body tz target dur step ps acc = Some out"
proof (induction ps arbitrary: acc)
  case Nil
  then show ?case by simp
next
  case (Cons p rest)
  from Cons.prems obtain acc' where
    w: "whileSlots fuel body (atTimeOfDay tz target (snd p)) dur step
          (atTimeOfDay tz target (fst p)) acc = Some acc'"
    and r: "forPeriods fuel body tz target dur step rest acc' = Some out"
    by (auto split: option.splits)
  show ?case
    using whileSlots_more_fuel [OF w, of k] Cons.IH [OF r] by simp
qed

lemma forPeriods_terminates:
  assumes "step \<noteq> 0"
  shows "\<exists>fuel. \<forall>acc. forPeriods fuel body tz target dur step ps acc \<noteq> None"
proof (induction ps)
  case Nil
  then show ?case by simp
next
  case (Cons p rest)
  then obtain f2 where f2: "\<forall>acc. forPeriods f2 body tz target dur step rest acc \<noteq> None"
    by blast
  obtain f1 where f1: "\<forall>acc. whileSlots f1 body (atTimeOfDay tz target (snd p)) dur step
                          (atTimeOfDay tz target (fst p)) acc \<noteq> None"
    using whileSlots_terminates [OF assms] by blast
  have "forPeriods (f1 + f2) body tz target dur step (p # rest) acc \<noteq> None" for acc
  proof -
    from f1 obtain acc' where a: "whileSlots f1 body (atTimeOfDay tz target (snd p)) dur step
                          (atTimeOfDay tz target (fst p)) acc = Some acc'" by blast
    from f2 obtain out where b: "forPeriods f2 body tz target dur step rest acc' = Some out"
      by blast
    have "forPeriods (f2 + f1) body tz target dur step rest acc' = Some out"
      by (rule forPeriods_more_fuel [OF b])
    then show ?thesis
      using whileSlots_more_fuel [OF a, of f2] by (simp add: add.commute)
  qed
  then show ?case by blast
qed

lemma parseIntOr_nonzero: "d \<noteq> 0 \<Longrightarrow> parseIntOr x d \<noteq> 0"
  by (simp add: parseIntOr_def split: option.splits)

subsection \<open>The generator of \<open>lib/slots.js\<close> returns\<close>

lemma getAvailableSlots_returns:
  "\<exists>fuel r. getAvailableSlots fuel e d dateStr serviceId staffId st = Some r"
proof -
  have step: "parseIntOr (slot_duration_minutes st) 30 \<noteq> 0"
    by (rule parseIntOr_nonzero) simp
  have loop: "\<exists>fuel. \<forall>acc. forPeriods fuel body (tza e) target dur
                (parseIntOr (slot_duration_minutes st) 30) ps acc \<noteq> None" for body target dur ps
    by (rule forPeriods_terminates [OF step])
  show ?thesis
  proof (cases "slotWindowError e dateStr st")
    case (Some err)
    then show ?thesis by (simp add: getAvailableSlots_def)
  next
    case None
    show ?thesis
    proof (cases "selectHoliday d dateStr")
      case (Some h)
      then show ?thesis by (simp add: getAvailableSlots_def None Let_def)
    next
      case hol: None
      show ?thesis
      proof (cases "isException ''closed'' (selectScheduleException e d dateStr)")
        case True
        then show ?thesis by (simp add: getAvailableSlots_def None hol Let_def)
      next
        case False
        show ?thesis
        proof (cases "resolvedHours e d dateStr")
          case rh: None
          then show ?thesis
            by (simp add: getAvailableSlots_def None hol False Let_def resolvedHours_def)
        next
          case (Some b)
          note rh = this
          show ?thesis
          proof (cases "bh_is_closed b")
            case True
            then show ?thesis
              using rh by (simp add: getAvailableSlots_def None hol False Let_def resolvedHours_def)
          next
            case opn: False
            show ?thesis
            proof (cases "selectActiveService d serviceId")
              case svc: None
              then show ?thesis
                using rh opn
                by (simp add: getAvailableSlots_def None hol False Let_def resolvedHours_def)
            next
              case (Some svc)
              from loop obtain fuel where
                "\<forall>acc. forPeriods fuel
                    (slotBody e staffId (selectDayAppointments e d dateStr staffId)
                       (selectScheduleException e d dateStr))
                    (tza e) (newDate e dateStr) (svc_duration_minutes svc)
                    (parseIntOr (slot_duration_minutes st) 30) (timePeriods b) acc \<noteq> None"
                by blast
              then obtain xs where "forPeriods fuel
                    (slotBody e staffId (selectDayAppointments e d dateStr staffId)
                       (selectScheduleException e d dateStr))
                    (tza e) (newDate e dateStr) (svc_duration_minutes svc)
                    (parseIntOr (slot_duration_minutes st) 30) (timePeriods b) [] = Some xs"
                by blast
              then have "getAvailableSlots fuel e d dateStr serviceId staffId st
                         = Some \<lparr> slots_error = None, slots = xs \<rparr>"
                using rh opn Some
                by (simp add: getAvailableSlots_def None hol False Let_def resolvedHours_def)
              then show ?thesis by blast
            qed
          qed
        qed
      qed
    qed
  qed
qed



lemma getAvailableSlots_offered:
  assumes "withinSlotWindow e dateStr st" and "selectHoliday d dateStr = None"
    and "\<not> isException ''closed'' (selectScheduleException e d dateStr)"
    and "resolvedHours e d dateStr = Some b" and "\<not> bh_is_closed b"
    and "selectActiveService d serviceId \<noteq> None"
  shows "\<exists>fuel xs. getAvailableSlots fuel e d dateStr serviceId staffId st
                    = Some \<lparr> slots_error = None, slots = xs \<rparr>"
proof -
  have w: "slotWindowError e dateStr st = None"
    using assms(1) by (simp add: slotWindowError_None)
  obtain fuel r where r: "getAvailableSlots fuel e d dateStr serviceId staffId st = Some r"
    using getAvailableSlots_returns by blast
  from assms(6) obtain svc where svc: "selectActiveService d serviceId = Some svc" by blast
  from r have "slots_error r = None"
    using assms(2-5) svc
    by (auto simp: getAvailableSlots_def w Let_def resolvedHours_def split: option.splits)
  then have "r = \<lparr> slots_error = None, slots = slots r \<rparr>" by simp
  with r show ?thesis by metis
qed

subsection \<open>The loop of \<open>lib/slots.postgres.js\<close>\<close>




subsection \<open>The generator of \<open>lib/slots.postgres.js\<close> returns\<close>




subsection \<open>What the loop bodies push\<close>




subsection \<open>Duration and closing time\<close>







subsection \<open>The cutoff boundary\<close>

lemma getAvailableSlots_not_closed:
  assumes "\<not> lessDate (cutoffDateOf e (newDate e dateStr) st) (Some (clock e))"
    and "getAvailableSlots fuel e d dateStr serviceId staffId st = Some r"
  shows "slots_error r \<noteq> Some (BookingClosedUntil a b)"
proof (cases "slotWindowError e dateStr st")
  case (Some err)
  then have "err \<noteq> BookingClosedUntil a b"
    using assms(1)
    by (auto simp: slotWindowError_def cutoffDateOf_def Let_def split: if_splits)
  with Some assms(2) show ?thesis by (auto simp: getAvailableSlots_def failure_def)
next
  case None
  with assms(2) show ?thesis
    by (auto simp: getAvailableSlots_def Let_def failure_def split: option.splits if_splits)
qed

lemma localDay_midnight:
  assumes "0 \<le> tz" and "tz < msPerDay"
  shows "localDay tz (dn * msPerDay) = dn"
proof -
  have "(dn * msPerDay + tz) div msPerDay = dn + tz div msPerDay"
    by (simp add: msPerDay_def)
  moreover have "tz div msPerDay = 0" using assms by simp
  ultimately show ?thesis by (simp add: localDay_def)
qed

text \<open>
  C2 (as amended). Let the cutoff days and hours be the effective ones: the setting read
  as an integer, with 2 days and 3 hours in place of a setting that is missing, not
  numeric or zero. Let \<open>D\<close> be the local calendar day of the Date the date text parses to
  (for a date-only text, read as midnight UTC, the day of the text in a zone at or east of
  UTC such as the clinic's UTC+9), and let the cutoff Date the code builds be within the
  range of a Date. With \<open>cutoffInstant\<close> the instant \<open>D\<close> minus the cutoff days at
  \<open>(24 - cutoff hours):00\<close>: at every "now" at or after that instant, for a date within
  the horizon, the generator returns no slots and the booking-closed error; at every "now"
  strictly before it (the last one a millisecond before) the generator never returns that
  error, and it returns a slot list without error whenever the date is within the horizon
  and no holiday, no chosen \<open>closed\<close> exception, the resolved hours are present and not
  closed, and the service is active.
\<close>

theorem cutoff_boundary:
  assumes "newDate e dateStr = Some t"
    and "cutoffDateOf e (Some t) st \<noteq> None"
  shows
   "(cutoffInstant (tza e) t (parseIntOr (booking_cutoff_days st) 2)
        (parseIntOr (booking_cutoff_hours st) 3) \<le> clock e
      \<and> \<not> lessDate (maxDateOf e st) (Some t)
     \<longrightarrow> getAvailableSlots fuel e d dateStr serviceId staffId st
           = Some (failure (BookingClosedUntil (parseIntOr (booking_cutoff_days st) 2)
                              (24 - parseIntOr (booking_cutoff_hours st) 3))))
    \<and> (clock e < cutoffInstant (tza e) t (parseIntOr (booking_cutoff_days st) 2)
                    (parseIntOr (booking_cutoff_hours st) 3)
     \<longrightarrow> (\<forall>r a b. getAvailableSlots fuel e d dateStr serviceId staffId st = Some r
              \<longrightarrow> slots_error r \<noteq> Some (BookingClosedUntil a b))
        \<and> (\<not> lessDate (maxDateOf e st) (Some t)
            \<and> selectHoliday d dateStr = None
            \<and> \<not> isException ''closed'' (selectScheduleException e d dateStr)
            \<and> (\<exists>b. resolvedHours e d dateStr = Some b \<and> \<not> bh_is_closed b)
            \<and> selectActiveService d serviceId \<noteq> None
           \<longrightarrow> (\<exists>fuel' xs. getAvailableSlots fuel' e d dateStr serviceId staffId st
                              = Some \<lparr> slots_error = None, slots = xs \<rparr>)))
    \<and> (0 \<le> tza e \<and> tza e < msPerDay \<and> t = dn * msPerDay \<longrightarrow> localDay (tza e) t = dn)"
proof -
  let ?I = "cutoffInstant (tza e) t (parseIntOr (booking_cutoff_days st) 2)
              (parseIntOr (booking_cutoff_hours st) 3)"
  from assms(2) obtain c where c: "cutoffDateOf e (Some t) st = Some c" by blast
  have cI: "c = ?I - 1" by (rule cutoffDateOf_Some [OF c])
  have A: "getAvailableSlots fuel e d dateStr serviceId staffId st
           = Some (failure (BookingClosedUntil (parseIntOr (booking_cutoff_days st) 2)
                              (24 - parseIntOr (booking_cutoff_hours st) 3)))"
    if h: "?I \<le> clock e \<and> \<not> lessDate (maxDateOf e st) (Some t)"
  proof -
    have "lessDate (cutoffDateOf e (Some t) st) (Some (clock e))"
      unfolding c using h cI by simp
    then have "slotWindowError e dateStr st
               = Some (BookingClosedUntil (parseIntOr (booking_cutoff_days st) 2)
                              (24 - parseIntOr (booking_cutoff_hours st) 3))"
      using h assms(1) by (simp add: slotWindowError_def Let_def maxDateOf_def cutoffDateOf_def)
    then show ?thesis by (simp add: getAvailableSlots_def)
  qed
  have nc: "\<not> lessDate (cutoffDateOf e (newDate e dateStr) st) (Some (clock e))"
    if "clock e < ?I"
    unfolding assms(1) c using that cI by simp
  have B: "\<forall>r a b. getAvailableSlots fuel e d dateStr serviceId staffId st = Some r
              \<longrightarrow> slots_error r \<noteq> Some (BookingClosedUntil a b)"
    if "clock e < ?I"
    using getAvailableSlots_not_closed [OF nc [OF that]] by blast
  have C: "\<exists>fuel' xs. getAvailableSlots fuel' e d dateStr serviceId staffId st
                              = Some \<lparr> slots_error = None, slots = xs \<rparr>"
    if lt: "clock e < ?I" and
      h: "\<not> lessDate (maxDateOf e st) (Some t)
            \<and> selectHoliday d dateStr = None
            \<and> \<not> isException ''closed'' (selectScheduleException e d dateStr)
            \<and> (\<exists>b. resolvedHours e d dateStr = Some b \<and> \<not> bh_is_closed b)
            \<and> selectActiveService d serviceId \<noteq> None"
  proof -
    have w: "withinSlotWindow e dateStr st"
      using nc [OF lt] h assms(1) by (simp add: withinSlotWindow_def)
    from h obtain b where b: "resolvedHours e d dateStr = Some b" "\<not> bh_is_closed b" by blast
    show ?thesis
      using getAvailableSlots_offered [OF w _ _ b] h by blast
  qed
  have D: "localDay (tza e) t = dn" if "0 \<le> tza e \<and> tza e < msPerDay \<and> t = dn * msPerDay"
    using that localDay_midnight [of "tza e" dn] by simp
  show ?thesis using A B C D by blast
qed

text \<open>
  For 1970-01-19 and the default settings the instant is 1970-01-17, 21:00 on the
  clinic's clock. At that instant the booking is closed; one millisecond before it the
  two slots of a Monday open 09:00-10:00 are offered.
\<close>

theorem cutoff_boundary_witness:
  "newDate (clinicAt (atClock 16 21 0)) ''1970-01-19'' = Some (18 * msPerDay)
   \<and> cutoffInstant jst (18 * msPerDay) 2 3 = atClock 16 21 0
   \<and> getAvailableSlots 100 (clinicAt (atClock 16 21 0))
        (clinic\<lparr> business_hours_rows := [shortMonday] \<rparr>) ''1970-01-19'' 1 None defaults
       = Some (failure (BookingClosedUntil 2 21))
   \<and> (\<exists>fuel' xs. getAvailableSlots fuel' (clinicAt (atClock 16 21 0 - 1))
        (clinic\<lparr> business_hours_rows := [shortMonday] \<rparr>) ''1970-01-19'' 1 None defaults
       = Some \<lparr> slots_error = None, slots = xs \<rparr>)
   \<and> map_option (\<lambda>r. (slots_error r, starts (slots r)))
        (getAvailableSlots 100 (clinicAt (atClock 16 21 0 - 1))
           (clinic\<lparr> business_hours_rows := [shortMonday] \<rparr>) ''1970-01-19'' 1 None defaults)
       = Some (None, [''09:00'', ''09:30''])"
proof -
  let ?at = "clinicAt (atClock 16 21 0)"
  let ?before = "clinicAt (atClock 16 21 0 - 1)"
  let ?d = "clinic\<lparr> business_hours_rows := [shortMonday] \<rparr>"
  have t1: "newDate ?at ''1970-01-19'' = Some (18 * msPerDay)" by code_simp
  have t2: "newDate ?before ''1970-01-19'' = Some (18 * msPerDay)" by code_simp
  have c1: "cutoffDateOf ?at (Some (18 * msPerDay)) defaults \<noteq> None" by code_simp
  have c2: "cutoffDateOf ?before (Some (18 * msPerDay)) defaults \<noteq> None" by code_simp
  have i: "cutoffInstant jst (18 * msPerDay) 2 3 = atClock 16 21 0" by code_simp
  have h1: "cutoffInstant (tza ?at) (18 * msPerDay) (parseIntOr (booking_cutoff_days defaults) 2)
        (parseIntOr (booking_cutoff_hours defaults) 3) \<le> clock ?at
      \<and> \<not> lessDate (maxDateOf ?at defaults) (Some (18 * msPerDay))"
    by code_simp
  have h2: "clock ?before < cutoffInstant (tza ?before) (18 * msPerDay)
                    (parseIntOr (booking_cutoff_days defaults) 2)
                    (parseIntOr (booking_cutoff_hours defaults) 3)"
    by code_simp
  have h3: "\<not> lessDate (maxDateOf ?before defaults) (Some (18 * msPerDay))
            \<and> selectHoliday ?d ''1970-01-19'' = None
            \<and> \<not> isException ''closed'' (selectScheduleException ?before ?d ''1970-01-19'')
            \<and> (\<exists>b. resolvedHours ?before ?d ''1970-01-19'' = Some b \<and> \<not> bh_is_closed b)
            \<and> selectActiveService ?d 1 \<noteq> None"
  proof -
    have "\<not> lessDate (maxDateOf ?before defaults) (Some (18 * msPerDay))
            \<and> selectHoliday ?d ''1970-01-19'' = None
            \<and> \<not> isException ''closed'' (selectScheduleException ?before ?d ''1970-01-19'')
            \<and> resolvedHours ?before ?d ''1970-01-19'' = Some shortMonday
            \<and> \<not> bh_is_closed shortMonday
            \<and> selectActiveService ?d 1 \<noteq> None"
      by code_simp
    then show ?thesis by blast
  qed
  have pars: "parseIntOr (booking_cutoff_days defaults) 2 = 2"
    "parseIntOr (booking_cutoff_hours defaults) 3 = 3"
    by (simp_all add: parseIntOr_def defaults_def)
  have a: "getAvailableSlots 100 ?at ?d ''1970-01-19'' 1 None defaults
           = Some (failure (BookingClosedUntil 2 21))"
    using cutoff_boundary [OF t1 c1, where fuel = 100 and d = ?d and serviceId = 1
        and staffId = None] h1 by (simp add: pars)
  have b: "\<exists>fuel' xs. getAvailableSlots fuel' ?before ?d ''1970-01-19'' 1 None defaults
       = Some \<lparr> slots_error = None, slots = xs \<rparr>"
    using cutoff_boundary [OF t2 c2, where d = ?d and serviceId = 1 and staffId = None]
      h2 h3 by blast
  have c: "map_option (\<lambda>r. (slots_error r, starts (slots r)))
        (getAvailableSlots 100 ?before ?d ''1970-01-19'' 1 None defaults)
       = Some (None, [''09:00'', ''09:30''])"
    by code_simp
  from t1 i a b c show ?thesis by (intro conjI)
qed

text \<open>
  C2 as stated fails in three ways. At the instant itself, 1970-01-17 21:00:00.000, the
  generator already returns the booking-closed error for 1970-01-19. With the cutoff days
  and hours set to 0 the code uses 2 days and 3 hours: on 1970-01-18 at noon, before the
  end of the 19th, the booking for the 19th is closed. With the cutoff days set to
  200000000 the cutoff Date is invalid and the check never fires: on 1970-01-05, long
  after the claimed instant, the slots of the 19th are offered.
\<close>

theorem cutoff_instant_counterexample:
  "cutoffInstant jst (18 * msPerDay) 2 3 = atClock 16 21 0
   \<and> getAvailableSlots 100 (clinicAt (atClock 16 21 0))
        (clinic\<lparr> business_hours_rows := [shortMonday] \<rparr>) ''1970-01-19'' 1 None defaults
       = Some (failure (BookingClosedUntil 2 21))
   \<and> atClock 17 12 0 < cutoffInstant jst (18 * msPerDay) 0 0
   \<and> getAvailableSlots 100 (clinicAt (atClock 17 12 0))
        (clinic\<lparr> business_hours_rows := [shortMonday] \<rparr>) ''1970-01-19'' 1 None
        (defaults\<lparr> booking_cutoff_days := Some 0, booking_cutoff_hours := Some 0 \<rparr>)
       = Some (failure (BookingClosedUntil 2 21))
   \<and> cutoffInstant jst (18 * msPerDay) 200000000 3 < atClock 4 8 0
   \<and> map_option (\<lambda>r. (slots_error r, starts (slots r)))
        (getAvailableSlots 100 (clinicAt (atClock 4 8 0))
           (clinic\<lparr> business_hours_rows := [shortMonday] \<rparr>) ''1970-01-19'' 1 None
           (defaults\<lparr> booking_cutoff_days := Some 200000000 \<rparr>))
       = Some (None, [''09:00'', ''09:30''])"
  by code_simp

subsection \<open>Availability\<close>

text \<open>
  C6. With the three bookings of Scenario F stored as the clinic's clock reads 09:00 and
  09:30, the generator reports the 09:00 slot unavailable, three bookings against a
  capacity of 3, and the 09:30 slot unaffected. But the generator counts overlaps only
  among the appointments that start on the target date, and reads each stored timestamp
  as local time. A confirmed booking from Sunday 23:30 to Monday 00:30 overlaps the
  Monday's 00:00 slot; with capacity 1 the generator reports the slot available with no
  booking, and the validator rejects a booking of that very slot as already booked. And
  when the three bookings of Scenario F are stored as PostgreSQL reads the generator's
  own \<open>startAt\<close> and \<open>endAt\<close> of the 09:00 slot, the zone dropped, the generator reports
  the 09:00 slot available with no booking against a capacity of 3.
\<close>

theorem overnight_booking_not_counted:
  "map_option (map_sum id (\<lambda>r. (slots_error r, counts (slots r))))
     (getAvailableSlotsPg 100 (clinicAt (atClock 4 8 0))
        (clinicPg\<lparr> business_hours_rows := [shortMonday],
                   slot_capacities :=
                     [\<lparr> cap_day_of_week = Some 1, cap_specific_date = None,
                        cap_time_slot = 540, cap_capacity = 3 \<rparr>],
                   appointments := [booked None (atWall 18 9 0) (atWall 18 9 30),
                                    booked None (atWall 18 9 0) (atWall 18 9 30),
                                    booked None (atWall 18 9 0) (atWall 18 9 30)] \<rparr>)
        ''1970-01-19'' 1 None defaults)
     = Some (Inr (None, [(''09:00'', False, 3, 3), (''09:30'', True, 0, 1)]))
   \<and> map_option (map_sum id (\<lambda>r. (slots_error r, counts (slots r))))
     (getAvailableSlotsPg 100 (clinicAt (atClock 4 8 0))
        (clinicPg\<lparr> business_hours_rows := [nightMonday],
                   appointments := [booked None (atWall 17 23 30) (atWall 18 0 30)] \<rparr>)
        ''1970-01-19'' 1 None defaults)
     = Some (Inr (None, [(''00:00'', True, 0, 1), (''00:30'', True, 0, 1)]))
   \<and> validateBookingPg (clinicAt (atClock 4 8 0))
        (clinicPg\<lparr> business_hours_rows := [nightMonday],
                   appointments := [booked None (atWall 17 23 30) (atWall 18 0 30)] \<rparr>)
        ''1970-01-19 00:00:00'' ''1970-01-19 00:30:00'' 1 None defaults
     = Inr (invalid AlreadyBooked)
   \<and> map_option (map_sum id (\<lambda>r. spans (slots r)))
      (getAvailableSlotsPg 100 (clinicAt (atClock 4 8 0))
         (clinicPg\<lparr> business_hours_rows := [shortMonday] \<rparr>) ''1970-01-19'' 1 None defaults)
     = Some (Inr [(''1970-01-19T00:00:00.000Z'', ''1970-01-19T00:30:00.000Z''),
                  (''1970-01-19T00:30:00.000Z'', ''1970-01-19T01:00:00.000Z'')])
   \<and> pgTimestamp (clinicAt (atClock 4 8 0)) ''1970-01-19T00:00:00.000Z'' = Some (atWall 18 0 0)
   \<and> pgTimestamp (clinicAt (atClock 4 8 0)) ''1970-01-19T00:30:00.000Z'' = Some (atWall 18 0 30)
   \<and> map_option (map_sum id (\<lambda>r. (slots_error r, counts (slots r))))
     (getAvailableSlotsPg 100 (clinicAt (atClock 4 8 0))
        (clinicPg\<lparr> business_hours_rows := [shortMonday],
                   slot_capacities :=
                     [\<lparr> cap_day_of_week = Some 1, cap_specific_date = None,
                        cap_time_slot = 540, cap_capacity = 3 \<rparr>],
                   appointments := [booked None (atWall 18 0 0) (atWall 18 0 30),
                                    booked None (atWall 18 0 0) (atWall 18 0 30),
                                    booked None (atWall 18 0 0) (atWall 18 0 30)] \<rparr>)
        ''1970-01-19'' 1 None defaults)
     = Some (Inr (None, [(''09:00'', True, 0, 3), (''09:30'', True, 0, 1)]))"
  by code_simp

end
